theory Spec2Isabelle
  imports Main "HOL-Library.Sublist"
begin

section \<open>Shallow embedding of the Azure Active Directory plugin (src/lib/index.js)\<close>

text \<open>
  The plugin is one JavaScript class, \<^verbatim>\<open>ActiveDirectoryPlugin\<close>. Its methods are
  embedded as HOL functions that take the plugin's state and return the new one.

  Conventions of the embedding:
  \<^item> a JavaScript string is a \<open>string\<close>; the model follows the source on ASCII text
    (tokens, URLs and identifiers are ASCII);
  \<^item> a value that may be \<^verbatim>\<open>null\<close> or \<^verbatim>\<open>undefined\<close> is an \<open>option\<close>, and
    \<open>None\<close> stands for both (the source only tests such values for truthiness);
  \<^item> a raised exception is a value: \<open>Inl e\<close> for a function without effects, and
    the exception next to the state it leaves behind for a method;
  \<^item> calls to the logger (\<^verbatim>\<open>info\<close>, \<^verbatim>\<open>warn\<close>, \<^verbatim>\<open>verbose\<close>, ...) only print to the
    console and are left out.
\<close>

subsection \<open>Strings\<close>

text \<open>\<^verbatim>\<open>String.prototype.indexOf\<close>: the position of the first occurrence, or \<open>-1\<close>.\<close>

fun indexOfFrom :: "string \<Rightarrow> string \<Rightarrow> nat \<Rightarrow> int" where
  "indexOfFrom [] sub i = (if sub = [] then int i else - 1)"
| "indexOfFrom (c # cs) sub i =
     (if prefix sub (c # cs) then int i else indexOfFrom cs sub (Suc i))"

definition indexOf :: "string \<Rightarrow> string \<Rightarrow> int" where
  "indexOf s sub = indexOfFrom s sub 0"

text \<open>The class \<^verbatim>\<open>\s\<close> of a regular expression, on ASCII: tab, line feed, vertical tab,
  form feed, carriage return and space.\<close>

definition isSpace :: "char \<Rightarrow> bool" where
  "isSpace c \<longleftrightarrow> c \<in> {CHR 0x09, CHR 0x0A, CHR 0x0B, CHR 0x0C, CHR 0x0D, CHR 0x20}"

text \<open>\<^verbatim>\<open>_isEmpty(str)\<close>: \<^verbatim>\<open>typeof str === 'undefined' || !str || 0 === str.length\<close>.\<close>

definition isEmpty :: "string option \<Rightarrow> bool" where
  "isEmpty str = (case str of None \<Rightarrow> True | Some s \<Rightarrow> s = [])"

subsection \<open>Identity token codec\<close>

text \<open>The character class \<^verbatim>\<open>[^\.\s]\<close> of the regular expression in \<^verbatim>\<open>_decodeJwt\<close>.\<close>

definition segChar :: "char \<Rightarrow> bool" where
  "segChar c \<longleftrightarrow> c \<noteq> CHR ''.'' \<and> \<not> isSpace c"

record crackedToken =
  header :: string
  JWSPayload :: string
  JWSSig :: string

text \<open>
  \<^verbatim>\<open>_decodeJwt(jwtToken)\<close> matches the token against
  \<^verbatim>\<open>/^([^\.\s]*)\.([^\.\s]+)\.([^\.\s]*)$/\<close>. No group can contain a dot, so the
  match is a left-to-right scan: the longest run of segment characters, a dot, a
  non-empty run, a dot, a run, and the end of the input. \<open>None\<close> is the source's
  \<^verbatim>\<open>null\<close>.
\<close>

definition decodeJwt :: "string \<Rightarrow> crackedToken option" where
  "decodeJwt jwtToken =
     (if isEmpty (Some jwtToken) then None
      else
        let h = takeWhile segChar jwtToken; r1 = dropWhile segChar jwtToken in
        (case r1 of
           [] \<Rightarrow> None
         | d1 # r2 \<Rightarrow>
             if d1 \<noteq> CHR ''.'' then None
             else
               let p = takeWhile segChar r2; r3 = dropWhile segChar r2 in
               if p = [] then None
               else
                 (case r3 of
                    [] \<Rightarrow> None
                  | d2 # r4 \<Rightarrow>
                      if d2 \<noteq> CHR ''.'' then None
                      else if dropWhile segChar r4 \<noteq> [] then None
                      else Some \<lparr>header = h, JWSPayload = p, JWSSig = takeWhile segChar r4\<rparr>)))"

subsection \<open>More of the JavaScript runtime\<close>

text \<open>\<^verbatim>\<open>String.prototype.split\<close> with a non-empty separator: the pieces between the
  successive occurrences of the separator, found from the left. \<open>cur\<close> is the piece
  being read.\<close>

function jsSplit :: "string \<Rightarrow> string \<Rightarrow> string \<Rightarrow> string list" where
  "jsSplit sep cur [] = [cur]"
| "jsSplit sep cur (c # cs) =
     (if sep \<noteq> [] \<and> prefix sep (c # cs)
      then cur # jsSplit sep [] (drop (length sep) (c # cs))
      else jsSplit sep (cur @ [c]) cs)"
  by pat_completeness auto
termination
  by (relation "measure (\<lambda>(sep, cur, s). length s)") auto

text \<open>\<^verbatim>\<open>Array.prototype.join\<close>.\<close>

fun join :: "string \<Rightarrow> string list \<Rightarrow> string" where
  "join sep [] = []"
| "join sep [x] = x"
| "join sep (x # y # ys) = x @ sep @ join sep (y # ys)"

text \<open>\<^verbatim>\<open>String.prototype.toLowerCase\<close>, on ASCII letters.\<close>

definition toLowerCase :: "string \<Rightarrow> string" where
  "toLowerCase s =
     map (\<lambda>c. case map_of (zip ''ABCDEFGHIJKLMNOPQRSTUVWXYZ'' ''abcdefghijklmnopqrstuvwxyz'') c of
                 Some l \<Rightarrow> l
               | None \<Rightarrow> c) s"

text \<open>
  Numbers. The numbers of JavaScript are the IEEE doubles, with their rounding, their
  infinities and \<^verbatim>\<open>NaN\<close>. The model leaves them open: \<open>'n\<close> is the type of the numbers,
  and a record of type \<open>'n jsnum\<close> holds the operations that the source applies to
  them. The plugin's state carries such a record (the field \<open>numbers\<close>), and every
  statement holds for every choice of it, so also for the doubles.
  \<^item> \<open>num_lit i\<close> is the number that the literal \<open>i\<close> of the source denotes;
  \<^item> \<open>num_add\<close> is \<^verbatim>\<open>+\<close>, \<open>num_greater\<close> is \<^verbatim>\<open>>\<close> and \<open>num_eq\<close> is \<^verbatim>\<open>==\<close> on two numbers;
  \<^item> \<open>num_truthy\<close> is the truth value of a number (in \<^verbatim>\<open>n || 300\<close>);
  \<^item> \<open>num_of_string\<close> is the conversion that \<^verbatim>\<open>>\<close> and \<^verbatim>\<open>==\<close> apply to a string operand
    when the other operand is a number;
  \<^item> \<open>num_parseInt s\<close> is \<^verbatim>\<open>parseInt(s, 10)\<close>;
  \<^item> \<open>num_to_string\<close> is \<^verbatim>\<open>String(n)\<close>, which string concatenation and the storage
    apply to a number.
\<close>

record 'n jsnum =
  num_lit :: "int \<Rightarrow> 'n"
  num_add :: "'n \<Rightarrow> 'n \<Rightarrow> 'n"
  num_greater :: "'n \<Rightarrow> 'n \<Rightarrow> bool"
  num_eq :: "'n \<Rightarrow> 'n \<Rightarrow> bool"
  num_truthy :: "'n \<Rightarrow> bool"
  num_of_string :: "string \<Rightarrow> 'n"
  num_parseInt :: "string \<Rightarrow> 'n"
  num_to_string :: "'n \<Rightarrow> string"

text \<open>
  The values of a decoded JSON object. \<open>JOther s\<close> is a value that is neither a
  string, a number, a boolean nor \<^verbatim>\<open>null\<close> (an array or an object), carried with its
  rendering \<^verbatim>\<open>String(v)\<close>. \<open>toStr js\<close> is \<^verbatim>\<open>String(v)\<close>, which string concatenation and
  the storage apply; an absent property is \<^verbatim>\<open>undefined\<close>.
\<close>

datatype 'n jsval = JStr string | JNum 'n | JBool bool | JNull | JOther string

fun toStr :: "'n jsnum \<Rightarrow> 'n jsval option \<Rightarrow> string" where
  "toStr js None = ''undefined''"
| "toStr js (Some (JStr s)) = s"
| "toStr js (Some (JNum n)) = num_to_string js n"
| "toStr js (Some (JBool b)) = (if b then ''true'' else ''false'')"
| "toStr js (Some JNull) = ''null''"
| "toStr js (Some (JOther s)) = s"

definition orUndefined :: "string option \<Rightarrow> string" where
  "orUndefined v = (case v of None \<Rightarrow> ''undefined'' | Some s \<Rightarrow> s)"

definition orNull :: "string option \<Rightarrow> string" where
  "orNull v = (case v of None \<Rightarrow> ''null'' | Some s \<Rightarrow> s)"

text \<open>The truth value of a string that may be absent: \<^verbatim>\<open>null\<close>, \<^verbatim>\<open>undefined\<close> and the
  empty string are false.\<close>

definition truthy :: "string option \<Rightarrow> bool" where
  "truthy v = (case v of None \<Rightarrow> False | Some s \<Rightarrow> s \<noteq> [])"

text \<open>\<^verbatim>\<open>encodeURIComponent\<close>: letters, digits and \<^verbatim>\<open>- _ . ! ~ * ' ( )\<close> are kept, every
  other byte is written \<^verbatim>\<open>%XX\<close>.\<close>

definition unreserved :: "char \<Rightarrow> bool" where
  "unreserved c \<longleftrightarrow>
     c \<in> set ''ABCDEFGHIJKLMNOPQRSTUVWXYZabcdefghijklmnopqrstuvwxyz0123456789-_.!~*()'' \<or>
     c = CHR 0x27"

definition hexDigit :: "nat \<Rightarrow> char" where
  "hexDigit d = ''0123456789ABCDEF'' ! d"

definition encodeURIComponent :: "string \<Rightarrow> string" where
  "encodeURIComponent s =
     concat (map (\<lambda>c. if unreserved c then [c]
                       else [CHR ''%'', hexDigit (of_char c div 16), hexDigit (of_char c mod 16)]) s)"

subsection \<open>Constants\<close>

abbreviation STORAGE_TOKEN_KEYS :: string where "STORAGE_TOKEN_KEYS \<equiv> ''AD_TOKEN_KEYS''"
abbreviation STORAGE_ACCESS_TOKEN_KEY :: string where "STORAGE_ACCESS_TOKEN_KEY \<equiv> ''AD_ACCESS_TOKEN_KEY''"
abbreviation STORAGE_EXPIRATION_KEY :: string where "STORAGE_EXPIRATION_KEY \<equiv> ''AD_EXPIRATION_KEY''"
abbreviation STORAGE_STATE_LOGIN :: string where "STORAGE_STATE_LOGIN \<equiv> ''AD_STATE_LOGIN''"
abbreviation STORAGE_STATE_RENEW :: string where "STORAGE_STATE_RENEW \<equiv> ''AD_STATE_RENEW''"
abbreviation STORAGE_NONCE_IDTOKEN :: string where "STORAGE_NONCE_IDTOKEN \<equiv> ''AD_NONCE_IDTOKEN''"
abbreviation STORAGE_SESSION_STATE :: string where "STORAGE_SESSION_STATE \<equiv> ''AD_SESSION_STATE''"
abbreviation STORAGE_IDTOKEN :: string where "STORAGE_IDTOKEN \<equiv> ''AD_IDTOKEN''"
abbreviation STORAGE_ERROR :: string where "STORAGE_ERROR \<equiv> ''AD_ERROR''"
abbreviation STORAGE_ERROR_DESCRIPTION :: string where "STORAGE_ERROR_DESCRIPTION \<equiv> ''AD_ERROR_DESCRIPTION''"
abbreviation STORAGE_LOGIN_ERROR :: string where "STORAGE_LOGIN_ERROR \<equiv> ''AD_LOGIN_ERROR''"
abbreviation STORAGE_RENEW_STATUS :: string where "STORAGE_RENEW_STATUS \<equiv> ''AD_TOKEN_RENEW_STATUS''"
abbreviation RESOURCE_DELIMETER :: string where "RESOURCE_DELIMETER \<equiv> ''|''"
abbreviation CACHE_DELIMETER :: string where "CACHE_DELIMETER \<equiv> ''||''"
abbreviation TOKEN_RENEW_STATUS_COMPLETED :: string where "TOKEN_RENEW_STATUS_COMPLETED \<equiv> ''Completed''"
abbreviation DEFAULT_EXPIRATION_TIME :: int where "DEFAULT_EXPIRATION_TIME \<equiv> 8640000"

subsection \<open>Data model\<close>

text \<open>
  The configuration as the constructor leaves it. \<open>endpoints\<close> is the object of
  endpoint keys and resources, as the list of its properties in the order
  \<^verbatim>\<open>for ... in\<close> visits them. \<open>state\<close> is \<^verbatim>\<open>config.state\<close>, which the flows set before
  they build a URL.
\<close>

record 'n config =
  clientId :: string
  tenant :: "string option"
  redirectUri :: string
  loginResource :: "string option"
  cacheLocation :: "string option"
  anonymousEndpoints :: "string list"
  endpoints :: "(string \<times> string) list option"
  expireOffsetSeconds :: "'n option"
  correlationId :: "string option"
  extraQueryParameter :: "string option"
  slice :: "string option"
  state :: "string option"

type_synonym 'n claims = "string \<rightharpoonup> 'n jsval"

record 'n user =
  userName :: "'n jsval"
  profile :: "'n claims"

datatype request_type = LOGIN | RENEW_TOKEN | UNKNOWN

text \<open>
  A callback of the application is a handle: \<open>Fn n\<close> returns, \<open>ThrowingFn n\<close> throws
  when it is called. The plugin's state records every call with its arguments
  \<^verbatim>\<open>(errorDesc, token, error, tokenType)\<close>. A callback does not call back into the
  plugin. A variable that holds no function (\<^verbatim>\<open>null\<close>, \<^verbatim>\<open>undefined\<close>) is \<open>None\<close>, and
  calling it raises a \<^verbatim>\<open>TypeError\<close>.
\<close>

datatype callback = Fn nat | ThrowingFn nat

type_synonym cb_args = "string option \<times> string option \<times> string option \<times> string option"

datatype exn = TypeError | CallbackThrew nat

text \<open>The merged dispatcher that \<^verbatim>\<open>registerCallback\<close> creates is a closure over the
  \<^verbatim>\<open>resource\<close> and the \<^verbatim>\<open>expectedState\<close> of the call that created it.\<close>

datatype dispatcher = Dispatcher string string

text \<open>\<^verbatim>\<open>window.parent\<close>: unset, the window itself (a top-level window) or another
  window (the plugin runs in a nested frame).\<close>

datatype parent_window = NoParent | SelfParent | OtherParent

text \<open>
  The state of a plugin object and of the part of the browser it reads: the two
  storages with the verdicts of \<^verbatim>\<open>_supportsLocalStorage\<close> and
  \<^verbatim>\<open>_supportsSessionStorage\<close>, the clock \<^verbatim>\<open>_now()\<close> in seconds, \<^verbatim>\<open>window.parent\<close>, and
  the numbers of the runtime.
  \<open>pluginRequestType\<close> is the field \<^verbatim>\<open>_requestType\<close>. \<open>invoked\<close> is the record of the
  callbacks called so far.
\<close>

record 'n plugin =
  config :: "'n config"
  callback :: "callback option"
  user :: "'n user option"
  activeRenewals :: "string \<rightharpoonup> string"
  loginInProgress :: bool
  acquireTokenInProgress :: bool
  renewStates :: "string list"
  callBackMappedToRenewStates :: "string \<rightharpoonup> dispatcher"
  callBacksMappedToRenewStates :: "string \<rightharpoonup> callback option list"
  pluginRequestType :: request_type
  localStorage :: "string \<rightharpoonup> string"
  sessionStorage :: "string \<rightharpoonup> string"
  localStorageSupported :: bool
  sessionStorageSupported :: bool
  now :: 'n
  windowParent :: parent_window
  invoked :: "(callback \<times> cb_args) list"
  numbers :: "'n jsnum"

record requestInfo =
  valid :: bool
  parameters :: "string \<rightharpoonup> string"
  stateMatch :: bool
  stateResponse :: string
  requestType :: request_type

subsection \<open>Correlation state store\<close>

text \<open>\<^verbatim>\<open>_getItem(key)\<close>. The probe of the storage is modelled by its verdict.\<close>

definition getItem :: "'n plugin \<Rightarrow> string \<Rightarrow> string option" where
  "getItem st key =
     (if cacheLocation (config st) = Some ''localStorage'' then
        (if \<not> localStorageSupported st then None else localStorage st key)
      else if \<not> sessionStorageSupported st then None
      else sessionStorage st key)"

text \<open>\<^verbatim>\<open>_saveItem(key, obj, preserve)\<close>, with \<open>obj\<close> already rendered as the string that the
  storage keeps. Only the local storage appends in \<open>preserve\<close> mode.\<close>

definition saveItem :: "'n plugin \<Rightarrow> string \<Rightarrow> string \<Rightarrow> bool \<Rightarrow> 'n plugin" where
  "saveItem st key obj preserve =
     (if cacheLocation (config st) = Some ''localStorage'' then
        (if \<not> localStorageSupported st then st
         else if preserve then
           st\<lparr>localStorage := (localStorage st)
                (key \<mapsto> (case getItem st key of None \<Rightarrow> [] | Some v \<Rightarrow> v) @ obj @ CACHE_DELIMETER)\<rparr>
         else st\<lparr>localStorage := (localStorage st)(key \<mapsto> obj)\<rparr>)
      else if \<not> sessionStorageSupported st then st
      else st\<lparr>sessionStorage := (sessionStorage st)(key \<mapsto> obj)\<rparr>)"

text \<open>The storage that the configuration selects passes its probe.\<close>

definition storageReady :: "'n plugin \<Rightarrow> bool" where
  "storageReady st =
     (if cacheLocation (config st) = Some ''localStorage'' then localStorageSupported st
      else sessionStorageSupported st)"

text \<open>\<^verbatim>\<open>_hasResource(key)\<close>.\<close>

definition hasResource :: "'n plugin \<Rightarrow> string \<Rightarrow> bool" where
  "hasResource st key =
     (case getItem st STORAGE_TOKEN_KEYS of
        None \<Rightarrow> False
      | Some keys \<Rightarrow> \<not> isEmpty (Some keys) \<and> indexOf keys (key @ RESOURCE_DELIMETER) > - 1)"

text \<open>\<^verbatim>\<open>getCachedToken(resource)\<close>: the token, or \<open>None\<close> for \<^verbatim>\<open>null\<close>, and the new state.
  \<open>offset\<close> is \<^verbatim>\<open>this.config.expireOffsetSeconds || 300\<close>.\<close>

definition getCachedToken :: "'n plugin \<Rightarrow> string \<Rightarrow> string option \<times> 'n plugin" where
  "getCachedToken st resource =
     (let js = numbers st;
          token = (case getItem st (STORAGE_ACCESS_TOKEN_KEY @ resource) of
                     None \<Rightarrow> [] | Some t \<Rightarrow> t);
          expiry = getItem st (STORAGE_EXPIRATION_KEY @ resource);
          offset = (case expireOffsetSeconds (config st) of
                      None \<Rightarrow> num_lit js 300
                    | Some n \<Rightarrow> if num_truthy js n then n else num_lit js 300)
      in
      if truthy expiry \<and>
         num_greater js (num_of_string js (orNull expiry)) (num_add js (now st) offset)
      then (Some token, st)
      else
        (None,
         saveItem (saveItem st (STORAGE_ACCESS_TOKEN_KEY @ resource) [] False)
           (STORAGE_EXPIRATION_KEY @ resource)
           (num_to_string js (num_add js (now st) (num_lit js DEFAULT_EXPIRATION_TIME))) False))"

subsection \<open>Pending-request registry\<close>

text \<open>\<^verbatim>\<open>registerCallback(expectedState, resource, callback)\<close>.\<close>

definition registerCallback :: "'n plugin \<Rightarrow> string \<Rightarrow> string \<Rightarrow> callback option \<Rightarrow> 'n plugin" where
  "registerCallback st expectedState resource cb =
     (let st1 = st\<lparr>activeRenewals := (activeRenewals st)(resource \<mapsto> expectedState)\<rparr>;
          cbs = (case callBacksMappedToRenewStates st1 expectedState of
                   None \<Rightarrow> [] | Some l \<Rightarrow> l);
          st2 = st1\<lparr>callBacksMappedToRenewStates :=
                      (callBacksMappedToRenewStates st1)(expectedState \<mapsto> cbs @ [cb])\<rparr>
      in
      case callBackMappedToRenewStates st2 expectedState of
        None \<Rightarrow>
          st2\<lparr>callBackMappedToRenewStates :=
                (callBackMappedToRenewStates st2)(expectedState \<mapsto> Dispatcher resource expectedState)\<rparr>
      | Some d \<Rightarrow> st2)"

text \<open>A call \<^verbatim>\<open>cb(errorDesc, token, error, tokenType)\<close>: the exception it raises, if any,
  and the state after it.\<close>

definition call :: "callback option \<Rightarrow> cb_args \<Rightarrow> 'n plugin \<Rightarrow> exn option \<times> 'n plugin" where
  "call cb args st =
     (case cb of
        None \<Rightarrow> (Some TypeError, st)
      | Some (Fn n) \<Rightarrow> (None, st\<lparr>invoked := invoked st @ [(Fn n, args)]\<rparr>)
      | Some (ThrowingFn n) \<Rightarrow>
          (Some (CallbackThrew n), st\<lparr>invoked := invoked st @ [(ThrowingFn n, args)]\<rparr>))"

text \<open>The loop of the dispatcher: every call stands in a \<^verbatim>\<open>try\<close> whose \<^verbatim>\<open>catch\<close> only
  logs, so the exception of a call is dropped and the loop goes on.\<close>

fun invokeAll :: "callback option list \<Rightarrow> cb_args \<Rightarrow> 'n plugin \<Rightarrow> 'n plugin" where
  "invokeAll [] args st = st"
| "invokeAll (cb # cbs) args st = invokeAll cbs args (snd (call cb args st))"

text \<open>The body of the merged dispatcher. Reading the length of a callback list that
  is \<^verbatim>\<open>null\<close> raises a \<^verbatim>\<open>TypeError\<close>.\<close>

definition runDispatcher :: "dispatcher \<Rightarrow> cb_args \<Rightarrow> 'n plugin \<Rightarrow> exn option \<times> 'n plugin" where
  "runDispatcher d args st =
     (case d of
        Dispatcher resource expectedState \<Rightarrow>
          let st1 = st\<lparr>activeRenewals := (activeRenewals st)(resource := None)\<rparr> in
          (case callBacksMappedToRenewStates st1 expectedState of
             None \<Rightarrow> (Some TypeError, st1)
           | Some cbs \<Rightarrow>
               let st2 = invokeAll cbs args st1;
                   st3 = st2\<lparr>callBacksMappedToRenewStates :=
                              (callBacksMappedToRenewStates st2)(expectedState := None)\<rparr>
               in (None, st3\<lparr>callBackMappedToRenewStates :=
                                (callBackMappedToRenewStates st3)(expectedState := None)\<rparr>)))"

text \<open>
  How \<^verbatim>\<open>handleWindowCallback\<close> (in a popup or a frame) and the timeout of
  \<^verbatim>\<open>_loadFrameTimeout\<close> deliver a result: the dispatcher is looked up under the state,
  and called only when there is one; \<^verbatim>\<open>handleWindowCallback\<close> catches what the call
  raises.
\<close>

definition invokeTokenReceivedCallback :: "'n plugin \<Rightarrow> string \<Rightarrow> cb_args \<Rightarrow> 'n plugin" where
  "invokeTokenReceivedCallback st expectedState args =
     (case callBackMappedToRenewStates st expectedState of
        None \<Rightarrow> st
      | Some tokenReceivedCallback \<Rightarrow> snd (runDispatcher tokenReceivedCallback args st))"

subsection \<open>Identity\<close>

text \<open>
  \<^verbatim>\<open>_extractIdToken(encodedIdToken)\<close>. The browser's base64 decoder and \<^verbatim>\<open>JSON.parse\<close> are
  the parameter \<open>dec\<close>: \<open>dec payload\<close> is the object that the payload decodes to, and
  \<open>None\<close> when decoding or parsing fails (the source catches the exception and
  returns \<^verbatim>\<open>null\<close>) or gives a value that is not an object (on which every test of
  \<^verbatim>\<open>_createUser\<close> is false, as on \<^verbatim>\<open>null\<close>). An absent token is empty for \<^verbatim>\<open>_isEmpty\<close>.
\<close>

definition extractIdToken :: "(string \<Rightarrow> 'n claims option) \<Rightarrow> string option \<Rightarrow> 'n claims option" where
  "extractIdToken dec encodedIdToken =
     (case encodedIdToken of
        None \<Rightarrow> None
      | Some tok \<Rightarrow>
          (case decodeJwt tok of
             None \<Rightarrow> None
           | Some decodedToken \<Rightarrow> dec (JWSPayload decodedToken)))"

text \<open>\<^verbatim>\<open>_createUser(idToken)\<close>. \<^verbatim>\<open>aud.toLowerCase()\<close> raises a \<^verbatim>\<open>TypeError\<close> when \<^verbatim>\<open>aud\<close> is
  not a string. The tests \<^verbatim>\<open>parsedJson.hasOwnProperty(...)\<close> are read as tests of
  membership: the claims are taken to have no member named \<^verbatim>\<open>hasOwnProperty\<close>, which
  would shadow the method.\<close>

definition createUser ::
  "(string \<Rightarrow> 'n claims option) \<Rightarrow> 'n config \<Rightarrow> string option \<Rightarrow> exn + 'n user option" where
  "createUser dec cfg idToken =
     (case extractIdToken dec idToken of
        None \<Rightarrow> Inr None
      | Some parsedJson \<Rightarrow>
          (case parsedJson ''aud'' of
             None \<Rightarrow> Inr None
           | Some (JStr aud) \<Rightarrow>
               if toLowerCase aud = toLowerCase (clientId cfg) then
                 Inr (Some \<lparr>userName =
                              (case parsedJson ''upn'' of
                                 Some upn \<Rightarrow> upn
                               | None \<Rightarrow>
                                   (case parsedJson ''email'' of
                                      Some email \<Rightarrow> email
                                    | None \<Rightarrow> JStr [])),
                            profile = parsedJson\<rparr>)
               else Inr None
           | Some other \<Rightarrow> Inl TypeError))"

subsection \<open>Response reconciler\<close>

text \<open>\<^verbatim>\<open>_matchNonce(user)\<close>.\<close>

definition matchNonce :: "'n plugin \<Rightarrow> 'n user \<Rightarrow> bool" where
  "matchNonce st u =
     (case getItem st STORAGE_NONCE_IDTOKEN of
        None \<Rightarrow> False
      | Some requestNonce \<Rightarrow>
          requestNonce \<noteq> [] \<and>
          list_ex (\<lambda>n. profile u ''nonce'' = Some (JStr n)) (jsSplit CACHE_DELIMETER [] requestNonce))"

text \<open>\<^verbatim>\<open>_matchState(requestInfo)\<close>: the result and the updated \<^verbatim>\<open>requestInfo\<close>.\<close>

definition matchState :: "'n plugin \<Rightarrow> requestInfo \<Rightarrow> bool \<times> requestInfo" where
  "matchState st ri =
     (let loginStates = getItem st STORAGE_STATE_LOGIN in
      if truthy loginStates \<and>
         list_ex (\<lambda>s. s = stateResponse ri) (jsSplit CACHE_DELIMETER [] (orNull loginStates))
      then (True, ri\<lparr>requestType := LOGIN, stateMatch := True\<rparr>)
      else
        let acquireTokenStates = getItem st STORAGE_STATE_RENEW in
        if truthy acquireTokenStates \<and>
           list_ex (\<lambda>s. s = stateResponse ri)
             (jsSplit CACHE_DELIMETER [] (orNull acquireTokenStates))
        then (True, ri\<lparr>requestType := RENEW_TOKEN, stateMatch := True\<rparr>)
        else (False, ri))"

text \<open>
  \<^verbatim>\<open>getRequestInfo(hash)\<close>, from the parameters that \<^verbatim>\<open>_deserialize(_getHash(hash))\<close>
  returns: \<open>ps\<close> is the map of the own properties of that object, whose values are
  strings. The function tests the parameters with \<^verbatim>\<open>parameters.hasOwnProperty(...)\<close>.
  When the response has a parameter named \<^verbatim>\<open>hasOwnProperty\<close>, that property is a
  string and shadows the method, and the first test raises a \<^verbatim>\<open>TypeError\<close>.
\<close>

definition getRequestInfo :: "'n plugin \<Rightarrow> (string \<rightharpoonup> string) \<Rightarrow> exn + requestInfo" where
  "getRequestInfo st ps =
     (let ri = \<lparr>valid = False, parameters = ps, stateMatch = False, stateResponse = [],
                requestType = UNKNOWN\<rparr>
      in
      if ps ''hasOwnProperty'' \<noteq> None then Inl TypeError
      else if ps ''error_description'' \<noteq> None \<or> ps ''access_token'' \<noteq> None \<or>
              ps ''id_token'' \<noteq> None
      then
        (case ps ''state'' of
           None \<Rightarrow> Inr (ri\<lparr>valid := True\<rparr>)
         | Some s \<Rightarrow>
             let ri1 = ri\<lparr>valid := True, stateResponse := s\<rparr>;
                 (matched, ri2) = matchState st ri1
             in
             if matched then Inr ri2
             else if \<not> stateMatch ri2 \<and> windowParent st \<noteq> NoParent then
               Inr (ri2\<lparr>requestType := pluginRequestType st,
                        stateMatch := list_ex (\<lambda>x. x = stateResponse ri2) (renewStates st)\<rparr>)
             else Inr ri2)
      else Inr ri)"

text \<open>\<^verbatim>\<open>_getResourceFromState(state)\<close>.\<close>

definition getResourceFromState :: "string \<Rightarrow> string" where
  "getResourceFromState s =
     (if s = [] then []
      else
        let splitIndex = indexOf s ''|'' in
        if splitIndex > - 1 \<and> splitIndex + 1 < int (length s)
        then drop (nat (splitIndex + 1)) s
        else [])"

text \<open>\<^verbatim>\<open>_expiresIn(expires)\<close>. When \<^verbatim>\<open>expires\<close> is missing, empty or equal to 0, the
  variable is set to the number 8640000, which \<^verbatim>\<open>parseInt\<close> then reads from its
  rendering.\<close>

definition expiresIn :: "'n plugin \<Rightarrow> string option \<Rightarrow> 'n" where
  "expiresIn st expires =
     (let js = numbers st in
      if \<not> truthy expires \<or> num_eq js (num_of_string js (orNull expires)) (num_lit js 0)
      then num_add js (now st) (num_parseInt js (num_to_string js (num_lit js 8640000)))
      else num_add js (now st) (num_parseInt js (orNull expires)))"

subsection \<open>The save step\<close>

text \<open>The last statement of \<^verbatim>\<open>saveTokenFromHash\<close>: the renewal of \<open>resource\<close> is marked
  completed.\<close>

definition completeRenewal :: "'n plugin \<Rightarrow> string \<Rightarrow> 'n plugin" where
  "completeRenewal st resource =
     saveItem st (STORAGE_RENEW_STATUS @ resource) TOKEN_RENEW_STATUS_COMPLETED False"

text \<open>The two places where \<^verbatim>\<open>saveTokenFromHash\<close> adds a resource to the index of
  token keys, unless \<^verbatim>\<open>_hasResource\<close> finds it there.\<close>

definition indexResource :: "'n plugin \<Rightarrow> string \<Rightarrow> 'n plugin" where
  "indexResource st resource =
     (if \<not> hasResource st resource then
        saveItem st STORAGE_TOKEN_KEYS
          ((case getItem st STORAGE_TOKEN_KEYS of None \<Rightarrow> [] | Some k \<Rightarrow> k) @
           resource @ RESOURCE_DELIMETER) False
      else st)"

text \<open>
  The block of \<^verbatim>\<open>saveTokenFromHash\<close> for a response with an access token: the
  resource is indexed, and the token and its expiry \<^verbatim>\<open>_expiresIn(expires_in)\<close> are
  saved under the resource.
\<close>

definition saveAccessToken :: "'n plugin \<Rightarrow> string \<Rightarrow> string \<Rightarrow> string option \<Rightarrow> 'n plugin" where
  "saveAccessToken st resource accessToken expires =
     (let sa = indexResource st resource;
          sb = saveItem sa (STORAGE_ACCESS_TOKEN_KEY @ resource) accessToken False
      in saveItem sb (STORAGE_EXPIRATION_KEY @ resource)
           (num_to_string (numbers sb) (expiresIn sb expires)) False)"

text \<open>
  The block of \<^verbatim>\<open>saveTokenFromHash\<close> for a response with an identity token, up to the
  end of the function: the exception raised if any, the new state, and
  \<^verbatim>\<open>requestInfo\<close>, to whose parameters an error is added when the token gives no user.
  \<open>resource\<close> is the resource of the state; on a matching nonce the variable is
  reassigned to the login resource before the renewal is marked completed.
\<close>

definition saveIdToken ::
  "(string \<Rightarrow> 'n claims option) \<Rightarrow> 'n plugin \<Rightarrow> requestInfo \<Rightarrow> string \<Rightarrow> string \<Rightarrow>
     exn option \<times> 'n plugin \<times> requestInfo" where
  "saveIdToken dec st3 ri resource idToken =
     (let st4 = st3\<lparr>loginInProgress := False\<rparr> in
      case createUser dec (config st4) (Some idToken) of
        Inl e \<Rightarrow> (Some e, st4, ri)
      | Inr None \<Rightarrow>
          let st5 = st4\<lparr>user := None\<rparr>;
              ri' = ri\<lparr>parameters := (parameters ri)
                      (''error'' \<mapsto> ''invalid id_token'',
                       ''error_description'' \<mapsto> ''Invalid id_token. id_token: '' @ idToken)\<rparr>;
              st6 = saveItem st5 STORAGE_ERROR ''invalid id_token'' False;
              st7 = saveItem st6 STORAGE_ERROR_DESCRIPTION
                      (''Invalid id_token. id_token: '' @ idToken) False
          in (None, completeRenewal st7 resource, ri')
      | Inr (Some u) \<Rightarrow>
          let st5 = st4\<lparr>user := Some u\<rparr> in
          if \<not> matchNonce st5 u then
            let st6 = saveItem st5 STORAGE_LOGIN_ERROR
                        (''Nonce received: '' @ toStr (numbers st5) (profile u ''nonce'') @
                         '' is not same as requested: '' @
                         orNull (getItem st5 STORAGE_NONCE_IDTOKEN)) False;
                st7 = st6\<lparr>user := None\<rparr>
            in (None, completeRenewal st7 resource, ri)
          else
            let st6 = saveItem st5 STORAGE_IDTOKEN idToken False;
                resource' = (if truthy (loginResource (config st6))
                             then orNull (loginResource (config st6))
                             else clientId (config st6));
                st7 = indexResource st6 resource';
                st8 = saveItem st7 (STORAGE_ACCESS_TOKEN_KEY @ resource') idToken False;
                st9 = saveItem st8 (STORAGE_EXPIRATION_KEY @ resource')
                        (toStr (numbers st8) (profile u ''exp'')) False
            in (None, completeRenewal st9 resource', ri))"

text \<open>
  \<^verbatim>\<open>saveTokenFromHash(requestInfo)\<close>: the exception raised if any, the new state, and
  \<^verbatim>\<open>requestInfo\<close>, whose parameters the function may extend. \<open>dec\<close> is the decoder of
  \<open>extractIdToken\<close>. \<open>ri\<close> is a value that \<open>getRequestInfo\<close> returns, as in
  \<^verbatim>\<open>handleWindowCallback\<close>: its parameters have no property named \<^verbatim>\<open>hasOwnProperty\<close>.
\<close>

definition saveTokenFromHash ::
  "(string \<Rightarrow> 'n claims option) \<Rightarrow> 'n plugin \<Rightarrow> requestInfo \<Rightarrow> exn option \<times> 'n plugin \<times> requestInfo" where
  "saveTokenFromHash dec st0 ri =
     (let st1 = saveItem (saveItem st0 STORAGE_ERROR [] False) STORAGE_ERROR_DESCRIPTION [] False;
          resource = getResourceFromState (stateResponse ri);
          ps = parameters ri
      in
      case ps ''error_description'' of
        Some errorDescription \<Rightarrow>
          let st2 = saveItem st1 STORAGE_ERROR (orUndefined (ps ''error'')) False;
              st3 = saveItem st2 STORAGE_ERROR_DESCRIPTION errorDescription False;
              st4 = (if requestType ri = LOGIN
                     then saveItem (st3\<lparr>loginInProgress := False\<rparr>)
                            STORAGE_LOGIN_ERROR errorDescription False
                     else st3)
          in (None, completeRenewal st4 resource, ri)
      | None \<Rightarrow>
          if stateMatch ri then
            let st2 = (case ps ''session_state'' of
                         Some v \<Rightarrow> saveItem st1 STORAGE_SESSION_STATE v False
                       | None \<Rightarrow> st1);
                st3 = (case ps ''access_token'' of
                         None \<Rightarrow> st2
                       | Some accessToken \<Rightarrow>
                           saveAccessToken st2 resource accessToken (ps ''expires_in''))
            in
            (case ps ''id_token'' of
               None \<Rightarrow> (None, completeRenewal st3 resource, ri)
             | Some idToken \<Rightarrow> saveIdToken dec st3 ri resource idToken)
          else
            let ri' = ri\<lparr>parameters := ps
                        (''error'' \<mapsto> ''Invalid_state'',
                         ''error_description'' \<mapsto> ''Invalid_state. state: '' @ stateResponse ri)\<rparr>;
                st2 = saveItem st1 STORAGE_ERROR ''Invalid_state'' False;
                st3 = saveItem st2 STORAGE_ERROR_DESCRIPTION
                        (''Invalid_state. state: '' @ stateResponse ri) False
            in (None, completeRenewal st3 resource, ri'))"

subsection \<open>Authorization request builder\<close>

text \<open>
  \<^verbatim>\<open>_serialize(responseType, obj, resource)\<close>. \<open>guid\<close> is the identifier that \<^verbatim>\<open>_guid()\<close>
  draws when the configuration has no correlation id.
\<close>

definition serialize :: "string \<Rightarrow> string option \<Rightarrow> 'n config option \<Rightarrow> string option \<Rightarrow> string" where
  "serialize guid responseType obj resource =
     (case obj of
        None \<Rightarrow> join ''&'' []
      | Some c \<Rightarrow>
          join ''&''
            ([''?response_type='' @ ''id_token token'',
              ''client_id='' @ encodeURIComponent (clientId c),
              ''resource='' @ encodeURIComponent (clientId c),
              ''redirect_uri='' @ encodeURIComponent (redirectUri c),
              ''state='' @ encodeURIComponent (orUndefined (state c))] @
             (case slice c of Some s \<Rightarrow> [''slice='' @ encodeURIComponent s] | None \<Rightarrow> []) @
             (case extraQueryParameter c of Some q \<Rightarrow> [q] | None \<Rightarrow> []) @
             [''client-request-id='' @
              encodeURIComponent
                (if truthy (correlationId c) then orNull (correlationId c) else guid)]))"

text \<open>\<^verbatim>\<open>_libVersion()\<close> and \<^verbatim>\<open>_addLibMetadata()\<close>.\<close>

definition libVersion :: string where
  "libVersion = ''1.0.17''"

definition addLibMetadata :: string where
  "addLibMetadata = ''&x-client-SKU=Js&x-client-Ver='' @ libVersion"

text \<open>\<^verbatim>\<open>_getNavigateUrl(responseType, resource)\<close>; \<open>inst\<close> is the field \<^verbatim>\<open>this.instance\<close>.\<close>

definition getNavigateUrl ::
  "string \<Rightarrow> string \<Rightarrow> 'n config \<Rightarrow> string option \<Rightarrow> string option \<Rightarrow> string" where
  "getNavigateUrl guid inst cfg responseType resource =
     (let tenant' = (if truthy (tenant cfg) then orNull (tenant cfg) else ''common'') in
      inst @ tenant' @ ''/oauth2/authorize'' @
      serialize guid responseType (Some cfg) resource @ addLibMetadata)"

subsection \<open>Resource of an endpoint\<close>

text \<open>\<^verbatim>\<open>_getHostFromUri(uri)\<close>: \<^verbatim>\<open>/^(https?:)\/\//\<close> is removed, and the text before the
  first slash is returned.\<close>

definition getHostFromUri :: "string \<Rightarrow> string" where
  "getHostFromUri uri =
     (let extractedUri = (if prefix ''http://'' uri then drop 7 uri
                          else if prefix ''https://'' uri then drop 8 uri
                          else uri)
      in case jsSplit ''/'' [] extractedUri of
           [] \<Rightarrow> []
         | h # rest \<Rightarrow> h)"

text \<open>\<^verbatim>\<open>getResourceForEndpoint(endpoint)\<close>; \<open>None\<close> is \<^verbatim>\<open>null\<close>.\<close>

definition getResourceForEndpoint :: "'n config \<Rightarrow> string \<Rightarrow> string option" where
  "getResourceForEndpoint cfg endpoint =
     (if list_ex (\<lambda>a. indexOf endpoint a > - 1) (anonymousEndpoints cfg) then None
      else
        let eps = (case endpoints cfg of None \<Rightarrow> [] | Some l \<Rightarrow> l) in
        (case find (\<lambda>configEndpoint. indexOf endpoint configEndpoint > - 1) (map fst eps) of
           Some configEndpoint \<Rightarrow> map_of eps configEndpoint
         | None \<Rightarrow>
             if indexOf endpoint ''http://'' > - 1 \<or> indexOf endpoint ''https://'' > - 1 then
               (if getHostFromUri endpoint = getHostFromUri (redirectUri cfg)
                then loginResource cfg
                else None)
             else loginResource cfg))"

subsection \<open>Token acquisition: the entry checks\<close>

text \<open>
  The three entry points, up to the point where they start a request. \<open>Returned\<close>
  is a normal return, \<open>Raised\<close> an exception that leaves the function, and
  \<open>Continues\<close> the state in which the function goes on to build the authorization
  URL and to navigate a frame, a popup or the window (that part is not modelled).
\<close>

datatype 'n outcome = Returned "'n plugin" | Raised exn "'n plugin" | Continues "'n plugin"

text \<open>A call of a callback that is not in a \<^verbatim>\<open>try\<close>, followed by \<^verbatim>\<open>return\<close>.\<close>

definition callAndReturn :: "callback option \<Rightarrow> cb_args \<Rightarrow> 'n plugin \<Rightarrow> 'n outcome" where
  "callAndReturn cb args st =
     (case call cb args st of
        (None, st') \<Rightarrow> Returned st'
      | (Some e, st') \<Rightarrow> Raised e st')"

text \<open>\<^verbatim>\<open>acquireToken(resource, callback)\<close>.\<close>

definition acquireToken :: "'n plugin \<Rightarrow> string option \<Rightarrow> callback option \<Rightarrow> 'n outcome" where
  "acquireToken st resource cb =
     (if isEmpty resource then
        callAndReturn cb (Some ''resource is required'', None, Some ''resource is required'', None) st
      else
        let r = orNull resource;
            (token, st1) = getCachedToken st r
        in
        if truthy token then callAndReturn cb (None, token, None, None) st1
        else if user st1 = None \<and>
                \<not> (truthy (extraQueryParameter (config st1)) \<and>
                   indexOf (orNull (extraQueryParameter (config st1))) ''login_hint'' \<noteq> - 1)
        then callAndReturn cb (Some ''User login is required'', None, Some ''login required'', None) st1
        else if truthy (activeRenewals st1 r)
        then Returned (registerCallback st1 (orNull (activeRenewals st1 r)) r cb)
        else Continues (st1\<lparr>pluginRequestType := RENEW_TOKEN\<rparr>))"

text \<open>\<^verbatim>\<open>acquireTokenPopup(resource, extraQueryParameters, claims, callback)\<close>.\<close>

definition acquireTokenPopup :: "'n plugin \<Rightarrow> string option \<Rightarrow> callback option \<Rightarrow> 'n outcome" where
  "acquireTokenPopup st resource cb =
     (if isEmpty resource then
        callAndReturn cb (Some ''resource is required'', None, Some ''resource is required'', None) st
      else if user st = None then
        callAndReturn cb (Some ''User login is required'', None, Some ''login required'', None) st
      else if acquireTokenInProgress st then
        callAndReturn cb
          (Some ''Acquire token interactive is already in progress'', None,
           Some ''Acquire token interactive is already in progress'', None) st
      else Continues st)"

text \<open>
  \<^verbatim>\<open>acquireTokenRedirect(resource, extraQueryParameters, claims)\<close>. The function has
  no callback parameter: its variable \<^verbatim>\<open>callback\<close> is declared by
  \<^verbatim>\<open>var callback = this.callback\<close> after the check of the resource, so it is
  \<^verbatim>\<open>undefined\<close> in that check and \<^verbatim>\<open>this.callback\<close> after it.
\<close>

definition acquireTokenRedirect :: "'n plugin \<Rightarrow> string option \<Rightarrow> 'n outcome" where
  "acquireTokenRedirect st resource =
     (let cb0 = None in
      if isEmpty resource then
        callAndReturn cb0 (Some ''resource is required'', None, Some ''resource is required'', None) st
      else
        let cb = callback st in
        if user st = None then
          callAndReturn cb (Some ''User login is required'', None, Some ''login required'', None) st
        else if acquireTokenInProgress st then
          callAndReturn cb
            (Some ''Acquire token interactive is already in progress'', None,
             Some ''Acquire token interactive is already in progress'', None) st
        else Continues st)"

subsection \<open>Notions used in the statements\<close>

text \<open>The list that a storage key holds: the stored text split at the cache delimiter,
  and no entry when the key is absent or empty.\<close>

definition storedList :: "'n plugin \<Rightarrow> string \<Rightarrow> string list" where
  "storedList st key =
     (case getItem st key of
        None \<Rightarrow> []
      | Some l \<Rightarrow> if l = [] then [] else jsSplit CACHE_DELIMETER [] l)"

text \<open>
  Numbers for the examples: the whole numbers, with \<open>None\<close> for \<^verbatim>\<open>NaN\<close>. A text is read
  as a number when, after trimming white space, it is an optionally signed run of
  decimal digits (the empty text is 0); \<open>wholeParseInt\<close> reads an optional sign and
  the longest run of digits after leading white space. These are the conversions of
  JavaScript on the texts and numbers that the examples use (decimal whole numbers
  below \<open>2^53\<close>); every other text is read as \<^verbatim>\<open>NaN\<close> here, and the examples use none.
\<close>

definition isDigit :: "char \<Rightarrow> bool" where
  "isDigit c \<longleftrightarrow> c \<in> set ''0123456789''"

definition digitVal :: "char \<Rightarrow> int" where
  "digitVal c = int (length (takeWhile (\<lambda>d. d \<noteq> c) ''0123456789''))"

fun digitsValue :: "string \<Rightarrow> int \<Rightarrow> int" where
  "digitsValue [] acc = acc"
| "digitsValue (c # cs) acc = digitsValue cs (acc * 10 + digitVal c)"

definition trim :: "string \<Rightarrow> string" where
  "trim s = rev (dropWhile isSpace (rev (dropWhile isSpace s)))"

definition signOf :: "string \<Rightarrow> bool \<times> string" where
  "signOf t =
     (case t of
        [] \<Rightarrow> (False, [])
      | c # r \<Rightarrow> if c = CHR ''-'' then (True, r)
                 else if c = CHR ''+'' then (False, r) else (False, t))"

definition wholeOfString :: "string \<Rightarrow> int option" where
  "wholeOfString s =
     (let t = trim s in
      if t = [] then Some 0
      else
        let (neg, ds) = signOf t in
        if ds = [] \<or> \<not> list_all isDigit ds then None
        else Some (if neg then - digitsValue ds 0 else digitsValue ds 0))"

definition wholeParseInt :: "string \<Rightarrow> int option" where
  "wholeParseInt s =
     (let (neg, r) = signOf (dropWhile isSpace s);
          ds = takeWhile isDigit r
      in if ds = [] then None
         else Some (if neg then - digitsValue ds 0 else digitsValue ds 0))"

definition digitChar :: "nat \<Rightarrow> char" where
  "digitChar d = ''0123456789'' ! d"

function showNat :: "nat \<Rightarrow> string" where
  "showNat n = (if n < 10 then [digitChar n] else showNat (n div 10) @ [digitChar (n mod 10)])"
  by pat_completeness auto
termination
  by (relation "measure id") auto

declare showNat.simps [simp del]

definition showInt :: "int \<Rightarrow> string" where
  "showInt i = (if i < 0 then CHR ''-'' # showNat (nat (- i)) else showNat (nat i))"

definition wholeNumbers :: "int option jsnum" where
  "wholeNumbers =
     \<lparr>num_lit = Some,
      num_add = (\<lambda>a b. case a of None \<Rightarrow> None
                         | Some x \<Rightarrow> (case b of None \<Rightarrow> None | Some y \<Rightarrow> Some (x + y))),
      num_greater = (\<lambda>a b. case a of None \<Rightarrow> False
                             | Some x \<Rightarrow> (case b of None \<Rightarrow> False | Some y \<Rightarrow> x > y)),
      num_eq = (\<lambda>a b. case a of None \<Rightarrow> False
                        | Some x \<Rightarrow> (case b of None \<Rightarrow> False | Some y \<Rightarrow> x = y)),
      num_truthy = (\<lambda>a. case a of None \<Rightarrow> False | Some x \<Rightarrow> x \<noteq> 0),
      num_of_string = wholeOfString,
      num_parseInt = wholeParseInt,
      num_to_string = (\<lambda>a. case a of None \<Rightarrow> ''NaN'' | Some x \<Rightarrow> showInt x)\<rparr>"

text \<open>A configuration, and the plugin that the constructor builds from a
  configuration: no user, no renewal, request type \<^verbatim>\<open>LOGIN\<close>. The browser around it
  is a top-level window with two working, empty storages, at time 0.\<close>

definition exampleConfig :: "'n config" where
  "exampleConfig =
     \<lparr>clientId = ''client-1'', tenant = None, redirectUri = ''https://app.example.com/'',
      loginResource = Some ''client-1'', cacheLocation = None,
      anonymousEndpoints = [''/public''],
      endpoints = Some [(''/api/todo'', ''todo-resource'')],
      expireOffsetSeconds = None, correlationId = None, extraQueryParameter = None,
      slice = None, state = None\<rparr>"

definition newPlugin :: "int option config \<Rightarrow> int option plugin" where
  "newPlugin cfg =
     \<lparr>config = cfg, callback = None, user = None, activeRenewals = Map.empty,
      loginInProgress = False, acquireTokenInProgress = False, renewStates = [],
      callBackMappedToRenewStates = Map.empty, callBacksMappedToRenewStates = Map.empty,
      pluginRequestType = LOGIN, localStorage = Map.empty, sessionStorage = Map.empty,
      localStorageSupported = True, sessionStorageSupported = True, now = Some 0,
      windowParent = SelfParent, invoked = [], numbers = wholeNumbers\<rparr>"

text \<open>A plugin at time 1000 whose session storage holds the token \<^verbatim>\<open>tok\<close> for the
  resource \<^verbatim>\<open>r\<close>, with the given expiry.\<close>

definition cachedPlugin :: "string \<Rightarrow> int option plugin" where
  "cachedPlugin expiry =
     (newPlugin exampleConfig)
       \<lparr>now := Some 1000,
        sessionStorage := [''AD_ACCESS_TOKEN_KEYr'' \<mapsto> ''tok'', ''AD_EXPIRATION_KEYr'' \<mapsto> expiry]\<rparr>"



definition noncePlugin :: "string option \<Rightarrow> string \<Rightarrow> int option plugin" where
  "noncePlugin lr nonces =
     (newPlugin (exampleConfig\<lparr>loginResource := lr, cacheLocation := Some ''localStorage''\<rparr>))
       \<lparr>localStorage := [''AD_NONCE_IDTOKEN'' \<mapsto> nonces]\<rparr>"


section \<open>Properties\<close>

subsection \<open>Identity token codec\<close>

lemma takeWhile_segChar_dot:
  "list_all segChar h \<Longrightarrow> takeWhile segChar (h @ CHR ''.'' # r) = h"
  by (induction h) (auto simp: segChar_def)

lemma dropWhile_segChar_dot:
  "list_all segChar h \<Longrightarrow> dropWhile segChar (h @ CHR ''.'' # r) = CHR ''.'' # r"
  by (induction h) (auto simp: segChar_def)

lemma takeWhile_segChar_all: "list_all segChar g \<Longrightarrow> takeWhile segChar g = g"
  by (induction g) auto

lemma dropWhile_segChar_all: "list_all segChar g \<Longrightarrow> dropWhile segChar g = []"
  by (induction g) auto

lemma list_all_takeWhile_segChar: "list_all segChar (takeWhile segChar s)"
  by (induction s) auto

lemma dropWhile_nil_all: "dropWhile segChar g = [] \<Longrightarrow> list_all segChar g"
  by (induction g) (auto split: if_splits)

lemma decodeJwt_build:
  assumes "list_all segChar h" "list_all segChar p" "list_all segChar g" "p \<noteq> []"
  shows "decodeJwt (h @ CHR ''.'' # p @ CHR ''.'' # g) =
           Some \<lparr>header = h, JWSPayload = p, JWSSig = g\<rparr>"
  using assms
  by (simp add: decodeJwt_def isEmpty_def Let_def takeWhile_segChar_dot
      dropWhile_segChar_dot takeWhile_segChar_all)
    (simp add: list_all_iff)

lemma decodeJwt_shape:
  assumes "decodeJwt s = Some t"
  shows "s = header t @ CHR ''.'' # JWSPayload t @ CHR ''.'' # JWSSig t \<and>
         list_all segChar (header t) \<and> list_all segChar (JWSPayload t) \<and>
         list_all segChar (JWSSig t) \<and> JWSPayload t \<noteq> []"
proof -
  let ?h = "takeWhile segChar s" and ?r1 = "dropWhile segChar s"
  from assms obtain r2 where r1: "?r1 = CHR ''.'' # r2"
    by (auto simp: decodeJwt_def Let_def split: if_splits list.splits)
  let ?p = "takeWhile segChar r2" and ?r3 = "dropWhile segChar r2"
  from assms r1 have p: "?p \<noteq> []"
    by (auto simp: decodeJwt_def Let_def split: if_splits list.splits)
  from assms r1 p obtain r4 where r3: "?r3 = CHR ''.'' # r4"
    by (auto simp: decodeJwt_def Let_def split: if_splits list.splits)
  from assms r1 p r3 have r4: "dropWhile segChar r4 = []"
    and t: "t = \<lparr>header = ?h, JWSPayload = ?p, JWSSig = takeWhile segChar r4\<rparr>"
    by (auto simp: decodeJwt_def Let_def split: if_splits list.splits)
  have g: "takeWhile segChar r4 = r4"
    using r4 by (simp add: dropWhile_nil_all takeWhile_segChar_all)
  have "s = ?h @ ?r1" by simp
  also have "?r1 = CHR ''.'' # (?p @ ?r3)" using r1 by simp
  finally have "s = ?h @ CHR ''.'' # ?p @ CHR ''.'' # r4" using r3 by simp
  then show ?thesis
    using t g p r4 by (simp add: list_all_takeWhile_segChar dropWhile_nil_all)
qed

text \<open>
  C5 (as amended). \<^verbatim>\<open>_decodeJwt\<close> succeeds exactly on the strings made of three
  dot-separated segments without dots or white space whose middle segment (the
  payload) is non-empty; the header and the signature segment may be empty. On
  success the three segments are returned; on every other input the result is
  \<^verbatim>\<open>null\<close>.
\<close>

theorem decodeJwt_three_segments:
  "decodeJwt s = Some t \<longleftrightarrow>
     s = header t @ CHR ''.'' # JWSPayload t @ CHR ''.'' # JWSSig t \<and>
     list_all segChar (header t) \<and> list_all segChar (JWSPayload t) \<and>
     list_all segChar (JWSSig t) \<and> JWSPayload t \<noteq> []"
proof
  assume "decodeJwt s = Some t"
  then show "s = header t @ CHR ''.'' # JWSPayload t @ CHR ''.'' # JWSSig t \<and>
     list_all segChar (header t) \<and> list_all segChar (JWSPayload t) \<and>
     list_all segChar (JWSSig t) \<and> JWSPayload t \<noteq> []"
    by (rule decodeJwt_shape)
next
  assume a: "s = header t @ CHR ''.'' # JWSPayload t @ CHR ''.'' # JWSSig t \<and>
     list_all segChar (header t) \<and> list_all segChar (JWSPayload t) \<and>
     list_all segChar (JWSSig t) \<and> JWSPayload t \<noteq> []"
  then have "decodeJwt s =
      Some \<lparr>header = header t, JWSPayload = JWSPayload t, JWSSig = JWSSig t\<rparr>"
    using decodeJwt_build [of "header t" "JWSPayload t" "JWSSig t"] by simp
  then show "decodeJwt s = Some t" by simp
qed

text \<open>
  C5 (counterexample). The claim says that an empty header or signature segment is
  malformed. The token \<^verbatim>\<open>.a.\<close> has both empty and is decoded.
\<close>

theorem decodeJwt_empty_header_counterexample:
  "decodeJwt ''.a.'' = Some \<lparr>header = [], JWSPayload = ''a'', JWSSig = []\<rparr>"
  by (simp add: decodeJwt_def isEmpty_def segChar_def isSpace_def)

subsection \<open>Correlation state store\<close>

lemma getItem_saveItem_same:
  "storageReady st \<Longrightarrow> getItem (saveItem st k v False) k = Some v"
  by (simp add: getItem_def saveItem_def storageReady_def split: if_splits)

lemma getItem_saveItem_other:
  "k' \<noteq> k \<Longrightarrow> getItem (saveItem st k v p) k' = getItem st k'"
  by (simp add: getItem_def saveItem_def)

lemma storageReady_saveItem: "storageReady (saveItem st k v p) = storageReady st"
  by (simp add: storageReady_def saveItem_def)

lemma saveItem_memory:
  "config (saveItem st k v p) = config st"
  "callback (saveItem st k v p) = callback st"
  "user (saveItem st k v p) = user st"
  "activeRenewals (saveItem st k v p) = activeRenewals st"
  "loginInProgress (saveItem st k v p) = loginInProgress st"
  "acquireTokenInProgress (saveItem st k v p) = acquireTokenInProgress st"
  "renewStates (saveItem st k v p) = renewStates st"
  "callBackMappedToRenewStates (saveItem st k v p) = callBackMappedToRenewStates st"
  "callBacksMappedToRenewStates (saveItem st k v p) = callBacksMappedToRenewStates st"
  "pluginRequestType (saveItem st k v p) = pluginRequestType st"
  "now (saveItem st k v p) = now st"
  "windowParent (saveItem st k v p) = windowParent st"
  "invoked (saveItem st k v p) = invoked st"
  "numbers (saveItem st k v p) = numbers st"
  by (simp_all add: saveItem_def)

text \<open>
  C1. For every resource \<open>R\<close>, \<^verbatim>\<open>getCachedToken(R)\<close> returns a token if and only if an
  expiry is stored for \<open>R\<close> (a non-empty text) that, read as a number, is greater
  than the clock plus the offset, where the offset is \<^verbatim>\<open>expireOffsetSeconds\<close> of the
  configuration and 300 when that is missing or not a true number (0, \<^verbatim>\<open>NaN\<close>). The
  token it returns is the stored one (the empty string when none is stored) and the
  state is unchanged. In every other case it returns \<^verbatim>\<open>null\<close> and, where the selected
  storage works, the record of \<open>R\<close> then holds an empty token and the expiry
  clock + 8640000. The comparison, the sum and the rendering are those of the
  numbers of the runtime.
\<close>

theorem getCachedToken_token_iff_unexpired:
  "(fst (getCachedToken st R) \<noteq> None) =
     (\<exists>e. getItem st (STORAGE_EXPIRATION_KEY @ R) = Some e \<and> e \<noteq> [] \<and>
          num_greater (numbers st) (num_of_string (numbers st) e)
            (num_add (numbers st) (now st)
               (case expireOffsetSeconds (config st) of
                  None \<Rightarrow> num_lit (numbers st) 300
                | Some n \<Rightarrow> if num_truthy (numbers st) n then n else num_lit (numbers st) 300))) \<and>
   (\<forall>t. fst (getCachedToken st R) = Some t \<longrightarrow>
      t = (case getItem st (STORAGE_ACCESS_TOKEN_KEY @ R) of None \<Rightarrow> [] | Some x \<Rightarrow> x) \<and>
      snd (getCachedToken st R) = st) \<and>
   (fst (getCachedToken st R) = None \<longrightarrow> storageReady st \<longrightarrow>
      getItem (snd (getCachedToken st R)) (STORAGE_ACCESS_TOKEN_KEY @ R) = Some [] \<and>
      getItem (snd (getCachedToken st R)) (STORAGE_EXPIRATION_KEY @ R) =
        Some (num_to_string (numbers st)
                (num_add (numbers st) (now st) (num_lit (numbers st) 8640000))))"
proof (intro conjI allI impI)
  show "(fst (getCachedToken st R) \<noteq> None) =
     (\<exists>e. getItem st (STORAGE_EXPIRATION_KEY @ R) = Some e \<and> e \<noteq> [] \<and>
          num_greater (numbers st) (num_of_string (numbers st) e)
            (num_add (numbers st) (now st)
               (case expireOffsetSeconds (config st) of
                  None \<Rightarrow> num_lit (numbers st) 300
                | Some n \<Rightarrow> if num_truthy (numbers st) n then n else num_lit (numbers st) 300)))"
    by (auto simp: getCachedToken_def Let_def truthy_def orNull_def split: option.splits)
next
  fix t assume "fst (getCachedToken st R) = Some t"
  then show "t = (case getItem st (STORAGE_ACCESS_TOKEN_KEY @ R) of None \<Rightarrow> [] | Some x \<Rightarrow> x)"
    by (auto simp: getCachedToken_def Let_def split: if_splits)
next
  fix t assume "fst (getCachedToken st R) = Some t"
  then show "snd (getCachedToken st R) = st"
    by (auto simp: getCachedToken_def Let_def split: if_splits)
next
  assume n: "fst (getCachedToken st R) = None" and r: "storageReady st"
  from n have s: "snd (getCachedToken st R) =
      saveItem (saveItem st (STORAGE_ACCESS_TOKEN_KEY @ R) [] False)
        (STORAGE_EXPIRATION_KEY @ R)
        (num_to_string (numbers st) (num_add (numbers st) (now st) (num_lit (numbers st) 8640000)))
        False"
    by (auto simp: getCachedToken_def Let_def split: if_splits)
  show "getItem (snd (getCachedToken st R)) (STORAGE_ACCESS_TOKEN_KEY @ R) = Some []"
    unfolding s using r
    by (simp add: getItem_saveItem_other getItem_saveItem_same)
  show "getItem (snd (getCachedToken st R)) (STORAGE_EXPIRATION_KEY @ R) =
        Some (num_to_string (numbers st)
                (num_add (numbers st) (now st) (num_lit (numbers st) 8640000)))"
    unfolding s using r
    by (simp add: getItem_saveItem_same storageReady_saveItem)
qed

text \<open>
  The examples, at time 1000: an expiry of 5000 is returned; an expiry of 1200 is
  within the default offset of 300, so the record is reset to the expiry 8641000;
  with an offset of 100 configured the expiry of 1200 is returned, and with an
  offset of 0 configured the default of 300 applies again.
\<close>

theorem getCachedToken_token_iff_unexpired_witness:
  "fst (getCachedToken (cachedPlugin ''5000'') ''r'') = Some ''tok'' \<and>
   snd (getCachedToken (cachedPlugin ''5000'') ''r'') = cachedPlugin ''5000'' \<and>
   fst (getCachedToken (cachedPlugin ''1200'') ''r'') = None \<and>
   storageReady (cachedPlugin ''1200'') \<and>
   getItem (snd (getCachedToken (cachedPlugin ''1200'') ''r'')) ''AD_ACCESS_TOKEN_KEYr'' = Some [] \<and>
   getItem (snd (getCachedToken (cachedPlugin ''1200'') ''r'')) ''AD_EXPIRATION_KEYr'' =
     Some ''8641000'' \<and>
   fst (getCachedToken
          ((cachedPlugin ''1200'')\<lparr>config := exampleConfig\<lparr>expireOffsetSeconds := Some (Some 100)\<rparr>\<rparr>)
          ''r'') = Some ''tok'' \<and>
   fst (getCachedToken
          ((cachedPlugin ''1200'')\<lparr>config := exampleConfig\<lparr>expireOffsetSeconds := Some (Some 0)\<rparr>\<rparr>)
          ''r'') = None"
proof -
  let ?F = "cachedPlugin ''5000''" and ?E = "cachedPlugin ''1200''"
  let ?H = "(cachedPlugin ''1200'')\<lparr>config := exampleConfig\<lparr>expireOffsetSeconds := Some (Some 100)\<rparr>\<rparr>"
  let ?Z = "(cachedPlugin ''1200'')\<lparr>config := exampleConfig\<lparr>expireOffsetSeconds := Some (Some 0)\<rparr>\<rparr>"
  note ev = cachedPlugin_def newPlugin_def exampleConfig_def getItem_def wholeNumbers_def
    wholeOfString_def trim_def isSpace_def signOf_def isDigit_def digitVal_def
  have gF: "getItem ?F (STORAGE_EXPIRATION_KEY @ ''r'') = Some ''5000''"
    and tF: "getItem ?F (STORAGE_ACCESS_TOKEN_KEY @ ''r'') = Some ''tok''"
    and gE: "getItem ?E (STORAGE_EXPIRATION_KEY @ ''r'') = Some ''1200''"
    and gH: "getItem ?H (STORAGE_EXPIRATION_KEY @ ''r'') = Some ''1200''"
    and tH: "getItem ?H (STORAGE_ACCESS_TOKEN_KEY @ ''r'') = Some ''tok''"
    and gZ: "getItem ?Z (STORAGE_EXPIRATION_KEY @ ''r'') = Some ''1200''"
    by (simp_all add: ev)
  have r: "storageReady ?E"
    by (simp add: storageReady_def cachedPlugin_def newPlugin_def exampleConfig_def)
  have w5: "wholeOfString ''5000'' = Some 5000" and w1: "wholeOfString ''1200'' = Some 1200"
    by (simp_all add: ev)
  have s: "showInt 8641000 = ''8641000''"
    by (simp add: showInt_def showNat.simps digitChar_def)
  note th = getCachedToken_token_iff_unexpired
  have f: "fst (getCachedToken ?F ''r'') \<noteq> None"
    using th [of ?F "''r''"] gF w5
    by (simp add: cachedPlugin_def newPlugin_def exampleConfig_def wholeNumbers_def)
  have e: "fst (getCachedToken ?E ''r'') = None"
    using th [of ?E "''r''"] gE w1
    by (simp add: cachedPlugin_def newPlugin_def exampleConfig_def wholeNumbers_def)
  have h: "fst (getCachedToken ?H ''r'') \<noteq> None"
    using th [of ?H "''r''"] gH w1
    by (simp add: cachedPlugin_def newPlugin_def exampleConfig_def wholeNumbers_def)
  have z: "fst (getCachedToken ?Z ''r'') = None"
    using th [of ?Z "''r''"] gZ w1
    by (simp add: cachedPlugin_def newPlugin_def exampleConfig_def wholeNumbers_def)
  from f obtain t where t: "fst (getCachedToken ?F ''r'') = Some t" by blast
  with th [of ?F "''r''"] tF
  have f': "fst (getCachedToken ?F ''r'') = Some ''tok''"
    and f'': "snd (getCachedToken ?F ''r'') = ?F"
    by simp_all
  from h obtain t' where t': "fst (getCachedToken ?H ''r'') = Some t'" by blast
  with th [of ?H "''r''"] tH
  have h': "fst (getCachedToken ?H ''r'') = Some ''tok''"
    by simp
  from th [of ?E "''r''"] e r s
  have e': "getItem (snd (getCachedToken ?E ''r'')) ''AD_ACCESS_TOKEN_KEYr'' = Some [] \<and>
        getItem (snd (getCachedToken ?E ''r'')) ''AD_EXPIRATION_KEYr'' = Some ''8641000''"
    by (simp add: cachedPlugin_def newPlugin_def wholeNumbers_def)
  from f' f'' e r e' h' z show ?thesis by blast
qed

lemma indexOfFrom_sublist: "indexOfFrom s sub i > - 1 \<longleftrightarrow> sublist sub s"
  by (induction s arbitrary: i) (auto simp: sublist_Cons_right)

lemma indexOf_sublist: "indexOf s sub > - 1 \<longleftrightarrow> sublist sub s"
  by (simp add: indexOf_def indexOfFrom_sublist)

subsection \<open>Identity\<close>

text \<open>
  C4. For every claim map that an identity token decodes to, \<^verbatim>\<open>_createUser\<close> builds an
  identity exactly when the \<^verbatim>\<open>aud\<close> claim is a string that equals the configured
  client id up to letter case (so a token whose \<^verbatim>\<open>aud\<close> differs or is missing gives
  none). The identity carries the claim map as its profile, and its user name is
  the \<^verbatim>\<open>upn\<close> claim when present, else the \<^verbatim>\<open>email\<close> claim when present, else the
  empty string.
\<close>

theorem createUser_audience_and_userName:
  assumes "extractIdToken dec idToken = Some cl"
  shows "(\<exists>u. createUser dec cfg idToken = Inr (Some u)) =
           (\<exists>a. cl ''aud'' = Some (JStr a) \<and> toLowerCase a = toLowerCase (clientId cfg)) \<and>
         (\<forall>u. createUser dec cfg idToken = Inr (Some u) \<longrightarrow>
            profile u = cl \<and>
            userName u =
              (case cl ''upn'' of
                 Some upn \<Rightarrow> upn
               | None \<Rightarrow> (case cl ''email'' of Some email \<Rightarrow> email | None \<Rightarrow> JStr [])))"
  using assms
  by (auto simp: createUser_def split: option.splits jsval.splits if_splits)

theorem createUser_audience_and_userName_witness:
  "extractIdToken (\<lambda>p. if p = ''payload'' then Some [''aud'' \<mapsto> JStr ''CLIENT-1'', ''email'' \<mapsto> JStr ''a@b.c''] else None)
       (Some ''h.payload.s'') = Some [''aud'' \<mapsto> JStr ''CLIENT-1'', ''email'' \<mapsto> JStr ''a@b.c'' :: int option jsval] \<and>
   (\<exists>u. createUser (\<lambda>p. if p = ''payload'' then Some [''aud'' \<mapsto> JStr ''CLIENT-1'', ''email'' \<mapsto> JStr ''a@b.c''] else None)
       exampleConfig (Some ''h.payload.s'') = Inr (Some u) \<and> userName u = (JStr ''a@b.c'' :: int option jsval))"
proof -
  let ?cl = "[''aud'' \<mapsto> JStr ''CLIENT-1'', ''email'' \<mapsto> JStr ''a@b.c''] :: int option claims"
  let ?dec = "\<lambda>p. if p = ''payload'' then Some ?cl else None"
  let ?cfg = "exampleConfig :: int option config"
  have e: "extractIdToken ?dec (Some ''h.payload.s'') = Some ?cl"
    by (simp add: extractIdToken_def decodeJwt_def isEmpty_def segChar_def isSpace_def)
  have l: "toLowerCase ''CLIENT-1'' = toLowerCase (clientId ?cfg)"
    by (simp add: toLowerCase_def exampleConfig_def)
  from createUser_audience_and_userName [OF e, of ?cfg] l
  obtain u where u: "createUser ?dec ?cfg (Some ''h.payload.s'') = Inr (Some u)"
    by auto
  with createUser_audience_and_userName [OF e, of ?cfg]
  have "userName u = JStr ''a@b.c''" by simp
  with e u show ?thesis by blast
qed

subsection \<open>Response reconciler\<close>



text \<open>
  A response with a parameter named \<^verbatim>\<open>hasOwnProperty\<close> is not classified: the lookup
  \<^verbatim>\<open>parameters.hasOwnProperty(...)\<close> finds the text of that parameter, which is not a
  function, and the call raises.
\<close>

lemma getRequestInfo_hasOwnProperty_raises:
  "ps ''hasOwnProperty'' = Some x \<Longrightarrow> getRequestInfo st ps = Inl TypeError"
  by (simp add: getRequestInfo_def Let_def)

lemma getRequestInfo_hasOwnProperty_example:
  "getRequestInfo (newPlugin exampleConfig)
     [''id_token'' \<mapsto> ''x'', ''state'' \<mapsto> ''s1'', ''hasOwnProperty'' \<mapsto> ''1'']
   = Inl TypeError"
  by (simp add: getRequestInfo_def Let_def)

text \<open>
  The stored lists are cut at every delimiter, so a list that ends with the delimiter,
  as every list the plugin writes does, has an empty last entry.
\<close>

lemma storedList_trailing_delimiter_example:
  "storedList ((newPlugin exampleConfig)\<lparr>sessionStorage := [''AD_STATE_LOGIN'' \<mapsto> ''s0||'']\<rparr>)
     STORAGE_STATE_LOGIN = [''s0'', []]"
  by (simp add: storedList_def getItem_def newPlugin_def exampleConfig_def)




subsection \<open>Pending-request registry\<close>

lemma invokeAll_functions:
  "invokeAll (map Some cs) args st = st\<lparr>invoked := invoked st @ map (\<lambda>c. (c, args)) cs\<rparr>"
proof (induction cs arbitrary: st)
  case Nil
  then show ?case by simp
next
  case (Cons c cs)
  then show ?case by (cases c) (simp_all add: call_def)
qed

lemma registerCallback_first:
  assumes "callBacksMappedToRenewStates st S = None" "callBackMappedToRenewStates st S = None"
  shows "callBacksMappedToRenewStates (registerCallback st S r cb) S = Some [cb]"
    and "callBackMappedToRenewStates (registerCallback st S r cb) S = Some (Dispatcher r S)"
    and "invoked (registerCallback st S r cb) = invoked st"
  using assms by (simp_all add: registerCallback_def Let_def)

lemma registerCallback_later:
  assumes "callBacksMappedToRenewStates st S = Some l" "callBackMappedToRenewStates st S = Some d"
  shows "callBacksMappedToRenewStates (registerCallback st S r cb) S = Some (l @ [cb])"
    and "callBackMappedToRenewStates (registerCallback st S r cb) S = Some d"
    and "invoked (registerCallback st S r cb) = invoked st"
  using assms by (simp_all add: registerCallback_def Let_def)

lemma registerCallback_foldl:
  assumes "callBacksMappedToRenewStates st S = Some l" "callBackMappedToRenewStates st S = Some d"
  shows "callBacksMappedToRenewStates
           (foldl (\<lambda>s (r, c). registerCallback s S r (Some c)) st regs) S =
           Some (l @ map (\<lambda>(r, c). Some c) regs) \<and>
         callBackMappedToRenewStates
           (foldl (\<lambda>s (r, c). registerCallback s S r (Some c)) st regs) S = Some d \<and>
         invoked (foldl (\<lambda>s (r, c). registerCallback s S r (Some c)) st regs) = invoked st"
  using assms
proof (induction regs arbitrary: st l)
  case Nil
  then show ?case by simp
next
  case (Cons x regs)
  obtain r c where x: "x = (r, c)" by (cases x)
  from Cons.prems
  have a: "callBacksMappedToRenewStates (registerCallback st S r (Some c)) S = Some (l @ [Some c])"
    and b: "callBackMappedToRenewStates (registerCallback st S r (Some c)) S = Some d"
    and i: "invoked (registerCallback st S r (Some c)) = invoked st"
    by (simp_all add: registerCallback_later)
  from Cons.IH [OF a b] i x show ?case by simp
qed

lemma runDispatcher_functions:
  assumes "callBacksMappedToRenewStates st S = Some (map Some cs)"
  shows "fst (runDispatcher (Dispatcher r S) args st) = None"
    and "activeRenewals (snd (runDispatcher (Dispatcher r S) args st)) r = None"
    and "invoked (snd (runDispatcher (Dispatcher r S) args st)) =
           invoked st @ map (\<lambda>c. (c, args)) cs"
    and "callBacksMappedToRenewStates (snd (runDispatcher (Dispatcher r S) args st)) S = None"
    and "callBackMappedToRenewStates (snd (runDispatcher (Dispatcher r S) args st)) S = None"
  using assms by (simp_all add: runDispatcher_def Let_def invokeAll_functions)

text \<open>
  C2. Let the expected state \<open>S\<close> have no callback list and no dispatcher, and let
  the callbacks \<open>c1, ...\<close> be registered for \<open>S\<close> by \<^verbatim>\<open>registerCallback\<close>, the first one
  with the resource \<open>r1\<close>. Then the dispatcher stored for \<open>S\<close> is the one created for
  \<open>r1\<close>; looking it up and invoking it once raises nothing, clears the active renewal
  of \<open>r1\<close>, calls every registered callback once, in the order of registration and
  with the same four arguments, whether or not a callback throws, and removes the
  callback list and the dispatcher of \<open>S\<close>. A second invocation looked up for \<open>S\<close>
  changes nothing: no callback is called.
\<close>

theorem dispatcher_delivers_once:
  assumes "callBacksMappedToRenewStates st S = None" "callBackMappedToRenewStates st S = None"
    and "st1 = foldl (\<lambda>s (r, c). registerCallback s S r (Some c)) st ((r1, c1) # regs)"
    and "st2 = invokeTokenReceivedCallback st1 S args"
  shows "callBackMappedToRenewStates st1 S = Some (Dispatcher r1 S) \<and>
         runDispatcher (Dispatcher r1 S) args st1 = (None, st2) \<and>
         activeRenewals st2 r1 = None \<and>
         invoked st2 = invoked st @ map (\<lambda>c. (c, args)) (c1 # map snd regs) \<and>
         callBacksMappedToRenewStates st2 S = None \<and>
         callBackMappedToRenewStates st2 S = None \<and>
         invokeTokenReceivedCallback st2 S args' = st2"
proof -
  let ?s0 = "registerCallback st S r1 (Some c1)"
  have s1: "st1 = foldl (\<lambda>s (r, c). registerCallback s S r (Some c)) ?s0 regs"
    using assms(3) by simp
  note f = registerCallback_first [OF assms(1) assms(2), of r1 "Some c1"]
  from registerCallback_foldl [OF f(1) f(2), of regs] s1 f(3)
  have l: "callBacksMappedToRenewStates st1 S = Some (map Some (c1 # map snd regs))"
    and d: "callBackMappedToRenewStates st1 S = Some (Dispatcher r1 S)"
    and i: "invoked st1 = invoked st"
    by (simp_all add: case_prod_beta comp_def)
  have st2: "st2 = snd (runDispatcher (Dispatcher r1 S) args st1)"
    using assms(4) d by (simp add: invokeTokenReceivedCallback_def)
  note r = runDispatcher_functions [OF l, of r1 args]
  have "runDispatcher (Dispatcher r1 S) args st1 = (None, st2)"
    using r(1) st2 by (simp add: prod_eq_iff)
  moreover have "invokeTokenReceivedCallback st2 S args' = st2"
    using r(5) st2 by (simp add: invokeTokenReceivedCallback_def)
  ultimately show ?thesis
    using d r(2-5) i st2 by simp
qed

theorem dispatcher_delivers_once_witness:
  "callBacksMappedToRenewStates (newPlugin exampleConfig) ''s1'' = None \<and>
   callBackMappedToRenewStates (newPlugin exampleConfig) ''s1'' = None \<and>
   invoked (invokeTokenReceivedCallback
     (foldl (\<lambda>s (r, c). registerCallback s ''s1'' r (Some c)) (newPlugin exampleConfig)
        [(''r'', Fn 1), (''r'', ThrowingFn 2), (''r'', Fn 3)])
     ''s1'' (None, Some ''tok'', None, Some ''access_token'')) =
   [(Fn 1, (None, Some ''tok'', None, Some ''access_token'')),
    (ThrowingFn 2, (None, Some ''tok'', None, Some ''access_token'')),
    (Fn 3, (None, Some ''tok'', None, Some ''access_token''))] \<and>
   invoked (invokeTokenReceivedCallback (invokeTokenReceivedCallback
     (foldl (\<lambda>s (r, c). registerCallback s ''s1'' r (Some c)) (newPlugin exampleConfig)
        [(''r'', Fn 1), (''r'', ThrowingFn 2), (''r'', Fn 3)])
     ''s1'' (None, Some ''tok'', None, Some ''access_token''))
     ''s1'' (None, Some ''tok2'', None, Some ''access_token'')) =
   [(Fn 1, (None, Some ''tok'', None, Some ''access_token'')),
    (ThrowingFn 2, (None, Some ''tok'', None, Some ''access_token'')),
    (Fn 3, (None, Some ''tok'', None, Some ''access_token''))]"
proof -
  have a: "callBacksMappedToRenewStates (newPlugin exampleConfig) ''s1'' = None"
    and b: "callBackMappedToRenewStates (newPlugin exampleConfig) ''s1'' = None"
    and i: "invoked (newPlugin exampleConfig) = []"
    by (simp_all add: newPlugin_def)
  from dispatcher_delivers_once [OF a b refl refl,
      of "''r''" "Fn 1" "[(''r'', ThrowingFn 2), (''r'', Fn 3)]"
         "(None, Some ''tok'', None, Some ''access_token'')"
         "(None, Some ''tok2'', None, Some ''access_token'')"] a b i
  show ?thesis by simp
qed

subsection \<open>Authorization request builder\<close>

text \<open>The URL does not depend on the response type or the resource that is asked
  for.\<close>

lemma getNavigateUrl_ignores_resource:
  "getNavigateUrl g i cfg rt r = getNavigateUrl g i cfg rt' r'"
  by (simp add: getNavigateUrl_def serialize_def)

text \<open>
  C7 (the code at the failing input). A request for a token of the resource
  \<^verbatim>\<open>https://graph.microsoft.com\<close> is built with \<^verbatim>\<open>resource=client-1\<close>, the client
  id: \<^verbatim>\<open>_serialize\<close> does not use its \<^verbatim>\<open>resource\<close> argument.
\<close>

theorem getNavigateUrl_resource_is_clientId:
  "getNavigateUrl ''g-1'' ''https://login.microsoftonline.com/''
     (exampleConfig\<lparr>state := Some ''s-1|https://graph.microsoft.com''\<rparr>)
     (Some ''token'') (Some ''https://graph.microsoft.com'') =
   ''https://login.microsoftonline.com/common/oauth2/authorize?response_type=id_token token&client_id=client-1&resource=client-1&redirect_uri=https%3A%2F%2Fapp.example.com%2F&state=s-1%7Chttps%3A%2F%2Fgraph.microsoft.com&client-request-id=g-1&x-client-SKU=Js&x-client-Ver=1.0.17''"
  by (simp add: getNavigateUrl_def serialize_def exampleConfig_def truthy_def orNull_def
      orUndefined_def addLibMetadata_def libVersion_def encodeURIComponent_def unreserved_def
      hexDigit_def)

subsection \<open>Token acquisition\<close>

text \<open>
  C9 (the code at the failing input). \<^verbatim>\<open>acquireTokenRedirect\<close> with an empty resource
  calls its variable \<^verbatim>\<open>callback\<close> before the variable is assigned: a
  \<^verbatim>\<open>TypeError\<close> leaves the function and no callback receives the failure.
\<close>

theorem acquireTokenRedirect_empty_resource_raises:
  "acquireTokenRedirect st (Some []) = Raised TypeError st"
  by (simp add: acquireTokenRedirect_def isEmpty_def callAndReturn_def call_def)

text \<open>The other two entry points report the same failure to the callback.\<close>

lemma acquireToken_empty_resource_delivers:
  "acquireToken st (Some []) (Some (Fn n)) =
     Returned (st\<lparr>invoked := invoked st @
       [(Fn n, (Some ''resource is required'', None, Some ''resource is required'', None))]\<rparr>)"
  by (simp add: acquireToken_def isEmpty_def callAndReturn_def call_def)

lemma acquireTokenPopup_empty_resource_delivers:
  "acquireTokenPopup st (Some []) (Some (Fn n)) =
     Returned (st\<lparr>invoked := invoked st @
       [(Fn n, (Some ''resource is required'', None, Some ''resource is required'', None))]\<rparr>)"
  by (simp add: acquireTokenPopup_def isEmpty_def callAndReturn_def call_def)

subsection \<open>Resource of an endpoint\<close>

text \<open>
  C8 (as amended). For every endpoint URL, \<^verbatim>\<open>getResourceForEndpoint\<close> returns none
  when a configured anonymous endpoint occurs in the URL; else the resource
  configured for the first endpoint key that occurs anywhere in the URL (as a
  substring, not only as a prefix); else, for a URL that starts with \<^verbatim>\<open>http://\<close> or
  \<^verbatim>\<open>https://\<close>, none when its host differs from the host of the redirect URI and the
  login resource when the hosts are equal; and the login resource for a URL in
  which neither \<^verbatim>\<open>http://\<close> nor \<^verbatim>\<open>https://\<close> occurs.
\<close>

theorem getResourceForEndpoint_cases:
  "((\<exists>a \<in> set (anonymousEndpoints cfg). sublist a e) \<longrightarrow>
      getResourceForEndpoint cfg e = None) \<and>
   (\<not> (\<exists>a \<in> set (anonymousEndpoints cfg). sublist a e) \<longrightarrow>
      (\<forall>k. find (\<lambda>k. sublist k e) (map fst (case endpoints cfg of None \<Rightarrow> [] | Some l \<Rightarrow> l)) = Some k \<longrightarrow>
         getResourceForEndpoint cfg e = map_of (case endpoints cfg of None \<Rightarrow> [] | Some l \<Rightarrow> l) k) \<and>
      (find (\<lambda>k. sublist k e) (map fst (case endpoints cfg of None \<Rightarrow> [] | Some l \<Rightarrow> l)) = None \<longrightarrow>
         ((prefix ''http://'' e \<or> prefix ''https://'' e) \<longrightarrow>
            getResourceForEndpoint cfg e =
              (if getHostFromUri e = getHostFromUri (redirectUri cfg) then loginResource cfg else None)) \<and>
         (\<not> sublist ''http://'' e \<and> \<not> sublist ''https://'' e \<longrightarrow>
            getResourceForEndpoint cfg e = loginResource cfg)))"
proof -
  have p: "prefix ''http://'' e \<or> prefix ''https://'' e \<Longrightarrow>
           sublist ''http://'' e \<or> sublist ''https://'' e"
    using prefix_imp_sublist by blast
  show ?thesis
    using p
    by (auto simp: getResourceForEndpoint_def Let_def list_ex_iff indexOf_sublist
        split: option.splits)
qed

theorem getResourceForEndpoint_cases_witness:
  "getResourceForEndpoint exampleConfig ''/public/x'' = None \<and>
   getResourceForEndpoint exampleConfig ''/api/todo/1'' = Some ''todo-resource'' \<and>
   getResourceForEndpoint exampleConfig ''https://other-host/x'' = None \<and>
   getResourceForEndpoint exampleConfig ''https://app.example.com/x'' = Some ''client-1'' \<and>
   getResourceForEndpoint exampleConfig ''/anything-else'' = Some ''client-1''"
proof -
  have sub: "\<And>s e. sublist s e = (indexOf e s > - 1)"
    by (simp add: indexOf_sublist)
  note ev = sub indexOf_def exampleConfig_def getHostFromUri_def
  have 1: "getResourceForEndpoint exampleConfig ''/public/x'' = None"
    using getResourceForEndpoint_cases [of exampleConfig "''/public/x''"]
    by (simp add: ev)
  have 2: "getResourceForEndpoint exampleConfig ''/api/todo/1'' = Some ''todo-resource''"
    using getResourceForEndpoint_cases [of exampleConfig "''/api/todo/1''"]
    by (simp add: ev)
  have 3: "getResourceForEndpoint exampleConfig ''https://other-host/x'' = None"
    using getResourceForEndpoint_cases [of exampleConfig "''https://other-host/x''"]
    by (simp add: ev)
  have 4: "getResourceForEndpoint exampleConfig ''https://app.example.com/x'' = Some ''client-1''"
    using getResourceForEndpoint_cases [of exampleConfig "''https://app.example.com/x''"]
    by (simp add: ev)
  have 5: "getResourceForEndpoint exampleConfig ''/anything-else'' = Some ''client-1''"
    using getResourceForEndpoint_cases [of exampleConfig "''/anything-else''"]
    by (simp add: ev)
  from 1 2 3 4 5 show ?thesis by blast
qed

text \<open>
  C8 (counterexample). No endpoint key is a prefix of the URL, no anonymous endpoint
  occurs in it, the URL is absolute and its host is not the host of the redirect
  URI: the claim gives none, and the code returns the resource of the key
  \<^verbatim>\<open>/api/todo\<close>, which occurs inside the URL.
\<close>

theorem getResourceForEndpoint_substring_counterexample:
  "getResourceForEndpoint exampleConfig ''https://api.example.com/api/todo/1'' = Some ''todo-resource'' \<and>
   \<not> prefix ''/api/todo'' ''https://api.example.com/api/todo/1'' \<and>
   \<not> sublist ''/public'' ''https://api.example.com/api/todo/1'' \<and>
   prefix ''https://'' ''https://api.example.com/api/todo/1'' \<and>
   getHostFromUri ''https://api.example.com/api/todo/1'' \<noteq> getHostFromUri (redirectUri exampleConfig)"
proof -
  have sub: "\<And>s e. sublist s e = (indexOf e s > - 1)"
    by (simp add: indexOf_sublist)
  show ?thesis
    by (simp add: sub indexOf_def exampleConfig_def getHostFromUri_def getResourceForEndpoint_def)
qed

subsection \<open>The save step\<close>

lemma saveItem_erase3:
  "(saveItem st k v p)\<lparr>localStorage := a, sessionStorage := b, loginInProgress := c\<rparr> =
     st\<lparr>localStorage := a, sessionStorage := b, loginInProgress := c\<rparr>"
  by (simp add: saveItem_def)

lemma erase3_login:
  "(st\<lparr>loginInProgress := x\<rparr>)\<lparr>localStorage := a, sessionStorage := b, loginInProgress := c\<rparr> =
     st\<lparr>localStorage := a, sessionStorage := b, loginInProgress := c\<rparr>"
  by simp

lemma getItem_memory_update:
  "getItem (st\<lparr>loginInProgress := b\<rparr>) k = getItem st k"
  "getItem (st\<lparr>user := x\<rparr>) k = getItem st k"
  by (simp_all add: getItem_def)

lemma storageReady_memory_update:
  "storageReady (st\<lparr>loginInProgress := b\<rparr>) = storageReady st"
  "storageReady (st\<lparr>user := x\<rparr>) = storageReady st"
  by (simp_all add: storageReady_def)

lemma completeRenewal_getItem:
  "k \<noteq> STORAGE_RENEW_STATUS @ r \<Longrightarrow> getItem (completeRenewal st r) k = getItem st k"
  by (simp add: completeRenewal_def getItem_saveItem_other)

lemma completeRenewal_memory:
  "user (completeRenewal st r) = user st"
  "loginInProgress (completeRenewal st r) = loginInProgress st"
  "config (completeRenewal st r) = config st"
  by (simp_all add: completeRenewal_def saveItem_memory)

lemma saveTokenFromHash_error:
  assumes "parameters ri ''error_description'' = Some d"
  shows "saveTokenFromHash dec st ri =
     (None,
      completeRenewal
        (let st3 = saveItem (saveItem (saveItem (saveItem st STORAGE_ERROR [] False)
                     STORAGE_ERROR_DESCRIPTION [] False)
                     STORAGE_ERROR (orUndefined (parameters ri ''error'')) False)
                     STORAGE_ERROR_DESCRIPTION d False
         in if requestType ri = LOGIN
            then saveItem (st3\<lparr>loginInProgress := False\<rparr>) STORAGE_LOGIN_ERROR d False
            else st3)
        (getResourceFromState (stateResponse ri)),
      ri)"
  using assms by (simp add: saveTokenFromHash_def Let_def)

text \<open>
  C10. For every response whose parameters contain \<^verbatim>\<open>error_description\<close>,
  \<^verbatim>\<open>saveTokenFromHash\<close> raises nothing and leaves every storage key unchanged except
  the two error keys, the login-error key and the renewal status of the resource of
  the state; in particular the access-token key and the expiration key of every
  resource and the stored identity token are unchanged. The login-error key and the
  flag \<^verbatim>\<open>_loginInProgress\<close> change only for a \<^verbatim>\<open>LOGIN\<close> request, and no other field of
  the plugin changes.
\<close>

theorem saveTokenFromHash_error_frame:
  assumes "parameters ri ''error_description'' = Some d"
    and "saveTokenFromHash dec st ri = (e, st', ri')"
  shows "e = None \<and> ri' = ri \<and>
     (\<forall>r. getItem st' (STORAGE_ACCESS_TOKEN_KEY @ r) = getItem st (STORAGE_ACCESS_TOKEN_KEY @ r) \<and>
          getItem st' (STORAGE_EXPIRATION_KEY @ r) = getItem st (STORAGE_EXPIRATION_KEY @ r)) \<and>
     getItem st' STORAGE_IDTOKEN = getItem st STORAGE_IDTOKEN \<and>
     (\<forall>k. k \<noteq> STORAGE_ERROR \<and> k \<noteq> STORAGE_ERROR_DESCRIPTION \<and> k \<noteq> STORAGE_LOGIN_ERROR \<and>
          k \<noteq> STORAGE_RENEW_STATUS @ getResourceFromState (stateResponse ri) \<longrightarrow>
          getItem st' k = getItem st k) \<and>
     (requestType ri \<noteq> LOGIN \<longrightarrow>
        getItem st' STORAGE_LOGIN_ERROR = getItem st STORAGE_LOGIN_ERROR \<and>
        loginInProgress st' = loginInProgress st) \<and>
     st'\<lparr>localStorage := localStorage st, sessionStorage := sessionStorage st,
         loginInProgress := loginInProgress st\<rparr> = st"
proof -
  note eq = saveTokenFromHash_error [OF assms(1), of dec st]
  from eq assms(2) have e: "e = None" and ri: "ri' = ri" by simp_all
  from eq assms(2) have st': "st' =
      completeRenewal
        (let st3 = saveItem (saveItem (saveItem (saveItem st STORAGE_ERROR [] False)
                     STORAGE_ERROR_DESCRIPTION [] False)
                     STORAGE_ERROR (orUndefined (parameters ri ''error'')) False)
                     STORAGE_ERROR_DESCRIPTION d False
         in if requestType ri = LOGIN
            then saveItem (st3\<lparr>loginInProgress := False\<rparr>) STORAGE_LOGIN_ERROR d False
            else st3)
        (getResourceFromState (stateResponse ri))"
    by simp
  have frame: "getItem st' k = getItem st k"
    if "k \<noteq> STORAGE_ERROR" "k \<noteq> STORAGE_ERROR_DESCRIPTION" "k \<noteq> STORAGE_LOGIN_ERROR"
       "k \<noteq> STORAGE_RENEW_STATUS @ getResourceFromState (stateResponse ri)" for k
    using that unfolding st'
    by (simp add: Let_def completeRenewal_getItem getItem_saveItem_other getItem_memory_update)
  have login: "getItem st' STORAGE_LOGIN_ERROR = getItem st STORAGE_LOGIN_ERROR \<and>
      loginInProgress st' = loginInProgress st" if "requestType ri \<noteq> LOGIN"
    using that unfolding st'
    by (simp add: Let_def completeRenewal_getItem completeRenewal_memory getItem_saveItem_other
        saveItem_memory)
  have mem: "st'\<lparr>localStorage := localStorage st, sessionStorage := sessionStorage st,
         loginInProgress := loginInProgress st\<rparr> = st"
    unfolding st'
    by (simp add: Let_def completeRenewal_def saveItem_erase3 erase3_login)
  have tok: "getItem st' (STORAGE_ACCESS_TOKEN_KEY @ r) = getItem st (STORAGE_ACCESS_TOKEN_KEY @ r)"
    and exp: "getItem st' (STORAGE_EXPIRATION_KEY @ r) = getItem st (STORAGE_EXPIRATION_KEY @ r)" for r
    by (rule frame; simp)+
  have idt: "getItem st' STORAGE_IDTOKEN = getItem st STORAGE_IDTOKEN"
    by (rule frame; simp)
  show ?thesis
  proof (intro conjI allI impI)
    show "e = None" by (rule e)
    show "ri' = ri" by (rule ri)
    show "getItem st' (STORAGE_ACCESS_TOKEN_KEY @ r) = getItem st (STORAGE_ACCESS_TOKEN_KEY @ r)" for r
      by (rule tok)
    show "getItem st' (STORAGE_EXPIRATION_KEY @ r) = getItem st (STORAGE_EXPIRATION_KEY @ r)" for r
      by (rule exp)
    show "getItem st' STORAGE_IDTOKEN = getItem st STORAGE_IDTOKEN" by (rule idt)
    show "getItem st' k = getItem st k"
      if "k \<noteq> STORAGE_ERROR \<and> k \<noteq> STORAGE_ERROR_DESCRIPTION \<and> k \<noteq> STORAGE_LOGIN_ERROR \<and>
          k \<noteq> STORAGE_RENEW_STATUS @ getResourceFromState (stateResponse ri)" for k
      using that by (intro frame) simp_all
    show "getItem st' STORAGE_LOGIN_ERROR = getItem st STORAGE_LOGIN_ERROR"
      if "requestType ri \<noteq> LOGIN" using login [OF that] by simp
    show "loginInProgress st' = loginInProgress st"
      if "requestType ri \<noteq> LOGIN" using login [OF that] by simp
    show "st'\<lparr>localStorage := localStorage st, sessionStorage := sessionStorage st,
         loginInProgress := loginInProgress st\<rparr> = st" by (rule mem)
  qed
qed

theorem saveTokenFromHash_error_frame_witness:
  "parameters \<lparr>valid = True, parameters = [''error_description'' \<mapsto> ''denied''],
               stateMatch = False, stateResponse = ''g|r'', requestType = RENEW_TOKEN\<rparr>
     ''error_description'' = Some ''denied'' \<and>
   getItem (fst (snd (saveTokenFromHash (\<lambda>p. None) (cachedPlugin ''5000'')
     \<lparr>valid = True, parameters = [''error_description'' \<mapsto> ''denied''],
      stateMatch = False, stateResponse = ''g|r'', requestType = RENEW_TOKEN\<rparr>)))
     ''AD_ACCESS_TOKEN_KEYr'' = Some ''tok'' \<and>
   getItem (fst (snd (saveTokenFromHash (\<lambda>p. None) (cachedPlugin ''5000'')
     \<lparr>valid = True, parameters = [''error_description'' \<mapsto> ''denied''],
      stateMatch = False, stateResponse = ''g|r'', requestType = RENEW_TOKEN\<rparr>)))
     ''AD_EXPIRATION_KEYr'' = Some ''5000'' \<and>
   loginInProgress (fst (snd (saveTokenFromHash (\<lambda>p. None) (cachedPlugin ''5000'')
     \<lparr>valid = True, parameters = [''error_description'' \<mapsto> ''denied''],
      stateMatch = False, stateResponse = ''g|r'', requestType = RENEW_TOKEN\<rparr>))) = False"
proof -
  let ?ri = "\<lparr>valid = True, parameters = [''error_description'' \<mapsto> ''denied''],
      stateMatch = False, stateResponse = ''g|r'', requestType = RENEW_TOKEN\<rparr>"
  let ?st = "cachedPlugin ''5000''"
  let ?X = "saveTokenFromHash (\<lambda>p. None) ?st ?ri"
  have a: "parameters ?ri ''error_description'' = Some ''denied''" by simp
  have b: "?X = (fst ?X, fst (snd ?X), snd (snd ?X))" by simp
  have c: "requestType ?ri \<noteq> LOGIN" by simp
  have t: "getItem ?st (STORAGE_ACCESS_TOKEN_KEY @ ''r'') = Some ''tok''"
    and x: "getItem ?st (STORAGE_EXPIRATION_KEY @ ''r'') = Some ''5000''"
    and l: "loginInProgress ?st = False"
    by (simp_all add: cachedPlugin_def newPlugin_def exampleConfig_def getItem_def)
  from saveTokenFromHash_error_frame [OF a b]
  have "getItem (fst (snd ?X)) (STORAGE_ACCESS_TOKEN_KEY @ ''r'') =
          getItem ?st (STORAGE_ACCESS_TOKEN_KEY @ ''r'')"
    and "getItem (fst (snd ?X)) (STORAGE_EXPIRATION_KEY @ ''r'') =
          getItem ?st (STORAGE_EXPIRATION_KEY @ ''r'')"
    and "loginInProgress (fst (snd ?X)) = loginInProgress ?st"
    using c by blast+
  with t x l a show ?thesis by simp
qed











text \<open>
  The stored list of nonces ends with the delimiter, as every list the plugin writes
  does, so its last entry is empty and a token whose \<^verbatim>\<open>nonce\<close> claim is the empty
  string matches it.
\<close>

lemma matchNonce_empty_nonce_example:
  "storedList (noncePlugin None ''n0||'') STORAGE_NONCE_IDTOKEN = [''n0'', []] \<and>
   matchNonce (noncePlugin None ''n0||'')
     \<lparr>userName = JStr [], profile = [''aud'' \<mapsto> JStr ''client-1'', ''nonce'' \<mapsto> JStr []]\<rparr>"
  by (simp add: matchNonce_def storedList_def getItem_def noncePlugin_def newPlugin_def
      exampleConfig_def)



end
